theory Spec2Isabelle
  imports Main "HOL-Library.AList"
begin

section \<open>Data model (src/types.ts)\<close>

text \<open>
  The type declarations of the server: the workflow state of a session, the session
  record with its optional processed-data record, the resolved identity of a call,
  the structured error returned in place of an exception, and the audit entry.
  Optional fields (\<^verbatim>\<open>field?: T\<close>) are \<open>option\<close> values, \<open>None\<close> standing for
  \<^verbatim>\<open>undefined\<close>.
\<close>

datatype State = REGISTERED | PROFILED | SUGGESTED | READY | ANALYZED

text \<open>Untyped values (\<^verbatim>\<open>any\<close>, \<^verbatim>\<open>Record<string, any>\<close>): tool arguments and tool results.\<close>

datatype json =
    JNull
  | JBool bool
  | JNum int
  | JStr string
  | JArr "json list"
  | JObj "(string \<times> json) list"

text \<open>
  One line of the audit file. Its field names are shared with later records and are
  written qualified (\<open>AuditLog.user\<close>, \<open>AuditLog.audit_id\<close>, ...).
\<close>

record AuditLog =
  timestamp :: string
  user :: string
  tenant :: string
  scopes :: "string list"
  tool :: string
  input_hash :: string
  preset_id :: "string option"
  session_id :: "string option"
  output_uri :: "string option"
  audit_id :: string
  success :: bool
  error :: "string option"

record Schema =
  time_col :: string
  value_cols :: "string list"

text \<open>
  The manifest of the confirmation call, in the shape \<^verbatim>\<open>ConfirmPreprocessedInput\<close>
  yields (src/schemas/confirmPreprocessed.ts).
\<close>

record Manifest =
  preset_id :: string
  profile_id :: string
  recipe_version :: string
  checksum :: string
  row_count :: int
  schema :: Schema

record Processed =
  uri :: string
  checksum :: string
  presetId :: string
  profileId :: string
  recipeVersion :: string
  rowCount :: "int option"
  schema :: "Schema option"

record Owner =
  user :: string
  tenant :: string

record Session =
  datasetId :: string
  state :: State
  suggestedPresetIds :: "string list"
  processed :: "Processed option"
  owner :: Owner

text \<open>
  \<^verbatim>\<open>AuthContext\<close> has the two fields of a session owner and two more; it is modelled
  as an extension of \<open>Owner\<close>.
\<close>

record AuthContext = Owner +
  scopes :: "string list"
  token :: string

record NextAction =
  tool :: string
  args :: json

text \<open>
  The human-readable messages of the error responses are fixed Japanese string
  literals. Each constructor stands for one literal of the source: the three of
  \<^verbatim>\<open>checkReadyGate\<close> (guard.ts, lines 88, 106 and 147) and the one of
  \<^verbatim>\<open>confirmPreprocessed\<close> (server.ts, line 352).
\<close>

datatype message =
    MsgGateSessionNotFound
  | MsgGateAccessDenied
  | MsgGatePreprocessRequired
  | MsgConfirmSessionNotFound

text \<open>The field \<^verbatim>\<open>next\<close> of the source is called \<open>nextActions\<close> here.\<close>

record ErrorResponse =
  error :: string
  message :: message
  nextActions :: "NextAction list"
  audit_id :: "string option"

definition errorNext ::
  "string \<Rightarrow> message \<Rightarrow> NextAction list \<Rightarrow> string option \<Rightarrow> ErrorResponse" where
  "errorNext code msg nxt auditId =
     \<lparr> error = code, message = msg, nextActions = nxt, audit_id = auditId \<rparr>"

section \<open>Session store (src/middleware/guard.ts)\<close>

text \<open>
  The two module-level \<^verbatim>\<open>Map\<close>s. A JavaScript \<^verbatim>\<open>Map\<close> keeps its keys in insertion
  order, \<^verbatim>\<open>set\<close> on a present key keeps the key's position and \<^verbatim>\<open>forEach\<close> walks
  that order: an association list with \<open>AList.update\<close> and \<open>AList.delete\<close>.
\<close>

record store =
  sessions :: "(string \<times> Session) list"
  sessionsByDataset :: "(string \<times> string) list"

definition empty_store :: store where
  "empty_store = \<lparr> sessions = [], sessionsByDataset = [] \<rparr>"

text \<open>Decimal rendering of a non-negative integer inside a template literal.\<close>

definition digit_char :: "nat \<Rightarrow> char" where
  "digit_char n = ''0123456789'' ! n"

fun string_of_nat :: "nat \<Rightarrow> string" where
  "string_of_nat n =
     (if n < 10 then [digit_char n] else string_of_nat (n div 10) @ [digit_char (n mod 10)])"

declare string_of_nat.simps [simp del]

text \<open>
  \<^verbatim>\<open>`sess_${Date.now()}_${Math.random().toString(36).substr(2, 9)}`\<close>: the clock
  reading \<open>now\<close> (milliseconds since the epoch) and the random fragment \<open>rnd\<close> are
  inputs from the environment.
\<close>

definition make_session_id :: "nat \<Rightarrow> string \<Rightarrow> string" where
  "make_session_id now rnd = ''sess_'' @ string_of_nat now @ ''_'' @ rnd"

definition createSession ::
  "string \<Rightarrow> string list \<Rightarrow> Owner \<Rightarrow> nat \<Rightarrow> string \<Rightarrow> store \<Rightarrow> string \<times> store" where
  "createSession dataset presets own now rnd st =
     (let sessionId = make_session_id now rnd;
          session = \<lparr> datasetId = dataset, state = SUGGESTED, suggestedPresetIds = presets,
                      processed = None, owner = own \<rparr>
      in (sessionId,
          st \<lparr> sessions := AList.update sessionId session (sessions st),
               sessionsByDataset := AList.update dataset sessionId (sessionsByDataset st) \<rparr>))"

definition getSession :: "store \<Rightarrow> string \<Rightarrow> Session option" where
  "getSession st sessionId = map_of (sessions st) sessionId"

text \<open>
  \<^verbatim>\<open>sessionId ? sessions.get(sessionId) : undefined\<close>: the empty string is falsy.
\<close>

definition getSessionByDataset :: "store \<Rightarrow> string \<Rightarrow> Session option" where
  "getSessionByDataset st dataset =
     (case map_of (sessionsByDataset st) dataset of
        None \<Rightarrow> None
      | Some sessionId \<Rightarrow> if sessionId \<noteq> [] then map_of (sessions st) sessionId else None)"

text \<open>
  \<^verbatim>\<open>updateSession\<close> returns \<^verbatim>\<open>false\<close> and leaves the store alone for an unknown id;
  otherwise it overwrites the state, and the processed record only when one is given.
\<close>

definition updateSession ::
  "string \<Rightarrow> State \<Rightarrow> Processed option \<Rightarrow> store \<Rightarrow> bool \<times> store" where
  "updateSession sessionId new_state proc st =
     (case map_of (sessions st) sessionId of
        None \<Rightarrow> (False, st)
      | Some session \<Rightarrow>
          (let session1 = session \<lparr> state := new_state \<rparr>;
               session2 = (case proc of None \<Rightarrow> session1
                           | Some p \<Rightarrow> session1 \<lparr> processed := Some p \<rparr>)
           in (True, st \<lparr> sessions := AList.update sessionId session2 (sessions st) \<rparr>)))"

subsection \<open>The READY gate\<close>

text \<open>
  \<^verbatim>\<open>session.suggestedPresetIds[0] || "preset_id"\<close>: a missing first element and an
  empty first element both give the placeholder.
\<close>

definition template_preset_id :: "string list \<Rightarrow> string" where
  "template_preset_id presets =
     (case presets of [] \<Rightarrow> ''preset_id''
      | p # _ \<Rightarrow> if p \<noteq> [] then p else ''preset_id'')"

definition confirm_template :: "Session \<Rightarrow> json" where
  "confirm_template session =
     JObj [(''dataset_id'', JStr (datasetId session)),
           (''processed_uri'', JStr ''your_processed_file_uri''),
           (''manifest'', JObj
              [(''preset_id'', JStr (template_preset_id (suggestedPresetIds session))),
               (''profile_id'', JStr ''profile_id''),
               (''recipe_version'', JStr ''v1.0''),
               (''checksum'', JStr ''sha256:your_checksum''),
               (''row_count'', JNum 1000),
               (''schema'', JObj
                  [(''time_col'', JStr ''timestamp''),
                   (''value_cols'', JArr [JStr ''value1'', JStr ''value2''])])])]"

text \<open>
  The result \<^verbatim>\<open>{ passed, session?, error? }\<close> is a sum: \<open>Inl\<close> carries the error of a
  failed gate (\<^verbatim>\<open>passed: false\<close>), \<open>Inr\<close> the session of a passed one.
\<close>

definition checkReadyGate ::
  "store \<Rightarrow> string \<Rightarrow> AuthContext \<Rightarrow> string \<Rightarrow> ErrorResponse + Session" where
  "checkReadyGate st sessionId auth auditId =
     (case map_of (sessions st) sessionId of
        None \<Rightarrow>
          Inl (errorNext ''SESSION_NOT_FOUND'' MsgGateSessionNotFound
                 [\<lparr> tool = ''toorpia_upload_data'',
                    args = JObj [(''csv_data'', JStr ''your_csv_data'')] \<rparr>]
                 (Some auditId))
      | Some session \<Rightarrow>
          if user (owner session) \<noteq> user auth \<or> tenant (owner session) \<noteq> tenant auth
          then Inl (errorNext ''ACCESS_DENIED'' MsgGateAccessDenied [] (Some auditId))
          else if state session \<noteq> READY
          then
            (let nxt =
               (if state session = REGISTERED
                then [\<lparr> tool = ''toorpia_suggest_preprocess'',
                         args = JObj [(''dataset_id'', JStr (datasetId session))] \<rparr>]
                else if state session = SUGGESTED
                then [\<lparr> tool = ''toorpia_confirm_preprocessed'',
                         args = confirm_template session \<rparr>]
                else [])
             in Inl (errorNext ''PREPROCESS_REQUIRED'' MsgGatePreprocessRequired nxt
                       (Some auditId)))
          else Inr session)"

definition checkScope :: "AuthContext \<Rightarrow> string \<Rightarrow> bool" where
  "checkScope auth requiredScope \<longleftrightarrow>
     requiredScope \<in> set (scopes auth) \<or> ''*'' \<in> set (scopes auth)"

subsection \<open>Expiry sweep\<close>

text \<open>\<^verbatim>\<open>String.prototype.split\<close> with a one-character separator.\<close>

fun split_on :: "char \<Rightarrow> string \<Rightarrow> string list" where
  "split_on c [] = [[]]"
| "split_on c (x # xs) =
     (if x = c then [] # split_on c xs
      else (case split_on c xs of [] \<Rightarrow> [[x]] | w # ws \<Rightarrow> (x # w) # ws))"

text \<open>
  \<^verbatim>\<open>parseInt\<close> without a radix: leading white space is skipped, one sign is read, a
  prefix \<^verbatim>\<open>0x\<close> or \<^verbatim>\<open>0X\<close> selects base sixteen, and the longest run of digits is
  the value; \<open>None\<close> is \<^verbatim>\<open>NaN\<close> (no digit). Strings are byte strings here, so
  only the ASCII white space is skipped, and the value is exact (a JavaScript number
  is, up to \<open>2 ^ 53\<close>, which every \<^verbatim>\<open>Date.now()\<close> is below).
\<close>

definition is_white_space :: "char \<Rightarrow> bool" where
  "is_white_space c \<longleftrightarrow> c \<in> {CHR 0x09, CHR 0x0A, CHR 0x0B, CHR 0x0C, CHR 0x0D, CHR 0x20}"

definition digit_value :: "nat \<Rightarrow> char \<Rightarrow> nat option" where
  "digit_value radix c =
     (let k = of_char c :: nat;
          v = (if 48 \<le> k \<and> k \<le> 57 then Some (k - 48)
               else if 97 \<le> k \<and> k \<le> 122 then Some (k - 87)
               else if 65 \<le> k \<and> k \<le> 90 then Some (k - 55)
               else None)
      in case v of None \<Rightarrow> None | Some d \<Rightarrow> if d < radix then Some d else None)"

definition digits_number :: "nat \<Rightarrow> string \<Rightarrow> nat" where
  "digits_number radix ds =
     foldl (\<lambda>acc c. acc * radix + (case digit_value radix c of None \<Rightarrow> 0 | Some d \<Rightarrow> d)) 0 ds"

definition parseInt :: "string \<Rightarrow> int option" where
  "parseInt s =
     (let s1 = dropWhile is_white_space s;
          negative = (case s1 of [] \<Rightarrow> False | c # _ \<Rightarrow> c = CHR ''-'');
          s2 = (case s1 of [] \<Rightarrow> []
                | c # r \<Rightarrow> if c = CHR ''-'' \<or> c = CHR ''+'' then r else s1);
          hex = (take 2 s2 = ''0x'' \<or> take 2 s2 = ''0X'');
          radix = (if hex then 16 else 10);
          s3 = (if hex then drop 2 s2 else s2);
          ds = takeWhile (\<lambda>c. digit_value radix c \<noteq> None) s3
      in if ds = [] then None
         else Some ((if negative then - 1 else 1) * int (digits_number radix ds)))"

text \<open>
  The test of the first loop of \<^verbatim>\<open>cleanupSessions\<close>: the creation time is read back
  from the second \<^verbatim>\<open>_\<close>-separated part of the session id, and a comparison with
  \<^verbatim>\<open>NaN\<close> is false.
\<close>

definition session_expired :: "int \<Rightarrow> nat \<Rightarrow> string \<Rightarrow> bool" where
  "session_expired maxAgeMs now sessionId =
     (let parts = split_on CHR ''_'' sessionId
      in if length parts \<ge> 2
         then (case parseInt (parts ! 1) of
                 None \<Rightarrow> False
               | Some stamp \<Rightarrow> int now - stamp > maxAgeMs)
         else False)"

text \<open>The body of the second loop, for one expired id.\<close>

definition remove_session :: "string \<Rightarrow> store \<Rightarrow> store" where
  "remove_session sessionId st =
     (case map_of (sessions st) sessionId of
        None \<Rightarrow> st
      | Some session \<Rightarrow>
          st \<lparr> sessionsByDataset := AList.delete (datasetId session) (sessionsByDataset st),
               sessions := AList.delete sessionId (sessions st) \<rparr>)"

definition cleanupSessions :: "int \<Rightarrow> nat \<Rightarrow> store \<Rightarrow> store" where
  "cleanupSessions maxAgeMs now st =
     (let expired = map fst (filter (\<lambda>(sessionId, session). session_expired maxAgeMs now sessionId)
                                    (sessions st))
      in fold remove_session expired st)"

text \<open>The default of \<^verbatim>\<open>maxAgeMs\<close>, with which the server calls the sweep.\<close>

definition default_max_age :: int where
  "default_max_age = 24 * 60 * 60 * 1000"

section \<open>Token verification (src/middleware/auth.ts)\<close>

text \<open>
  The decoded token. The interface declares \<^verbatim>\<open>sub\<close> and \<^verbatim>\<open>tenant\<close> mandatory, but the
  cast after \<^verbatim>\<open>jwt.verify\<close> is unchecked and \<^verbatim>\<open>verifyJWT\<close> tests both, so they are
  optional here.
\<close>

record JWTPayload =
  sub :: "string option"
  tenant_claim :: "string option"
  scope :: "string option"
  scopes_claim :: "string list option"
  iat :: "int option"
  exp :: "int option"

definition parseScopes :: "JWTPayload \<Rightarrow> string list" where
  "parseScopes payload =
     (case scopes_claim payload of
        Some list \<Rightarrow> list
      | None \<Rightarrow>
          (case scope payload of
             None \<Rightarrow> []
           | Some s \<Rightarrow>
               if s \<noteq> [] then filter (\<lambda>f. length f > 0) (split_on CHR '' '' s) else []))"

section \<open>Environment of a call\<close>

text \<open>
  Parsed tool arguments: what the Zod schemas of src/schemas yield.
\<close>

record SuggestArgs =
  dataset_id :: string
  topk :: "int option"

record ConfirmArgs =
  dataset_id :: string
  processed_uri :: string
  manifest :: Manifest

record RunArgs =
  session_id :: string
  analysis_type :: "string option"
  parameters :: "json option"

text \<open>
  Results of the backend client (src/utils/backendClient.ts). Of the data profile only
  what \<^verbatim>\<open>generatePreprocessSuggestions\<close> reads is kept; \<^verbatim>\<open>missingRate\<close> is a
  floating-point number, and \<open>missing_rate_high\<close> is the outcome of the comparison
  \<^verbatim>\<open>profile.missingRate > 0.2\<close>.
\<close>

record Profile =
  dataType :: string
  missing_rate_high :: bool

record ProfileResult =
  success :: bool
  profile :: "Profile option"
  error :: "string option"

record Validation =
  valid :: bool
  error :: "string option"

record AnalysisResult =
  success :: bool
  analysisId :: "string option"
  status :: "string option"
  estimatedTime :: "string option"
  error :: "string option"

text \<open>
  The environment of one call: the process environment variables, the clock and the
  random source, and the collaborators outside the repository.
  \<^item> \<open>jwt_verify\<close> is the retrieval of the verification key followed by
    \<^verbatim>\<open>jwt.verify\<close> with the fixed options (audience, clock tolerance, maximal age):
    \<open>Inl\<close> is the message of the error either of them throws.
  \<^item> \<open>sha256_hex\<close> is the hexadecimal SHA-256 digest of Node's \<^verbatim>\<open>crypto\<close> and
    \<open>json_stringify\<close> is \<^verbatim>\<open>JSON.stringify\<close> on a defined value.
  \<^item> \<open>audit_write_ok\<close> says whether the append to the audit file succeeds.
  \<^item> \<open>date_now\<close> is \<^verbatim>\<open>Date.now()\<close>, \<open>iso_now\<close> is \<^verbatim>\<open>new Date().toISOString()\<close>,
    \<open>random_fragment\<close> is \<^verbatim>\<open>Math.random().toString(36).substr(2, 9)\<close> and
    \<open>generated_audit_id\<close> is the result of \<^verbatim>\<open>generateAuditId()\<close>.
  \<^item> \<open>zod_suggest\<close>, \<open>zod_confirm\<close> and \<open>zod_run\<close> are the \<^verbatim>\<open>parse\<close> of the three
    schemas: \<open>Inl\<close> is the message of the validation error.
  \<^item> \<open>plain_tool\<close> is the outcome of the three tools that touch neither the session
    store nor the gate (upload, status, feedback): the message of the validation
    error of their schema, or the success flag and the remaining fields of the
    object they return.
  \<^item> the three \<open>backend_\<close> functions are the methods of the backend client, which
    catch their own errors and always return.
\<close>

record process_env =
  NODE_ENV :: "string option"
  SKIP_AUTH :: "string option"

record environment =
  penv :: process_env
  jwt_verify :: "string \<Rightarrow> string + JWTPayload"
  sha256_hex :: "string \<Rightarrow> string"
  json_stringify :: "json \<Rightarrow> string"
  audit_write_ok :: bool
  iso_now :: string
  date_now :: nat
  random_fragment :: string
  generated_audit_id :: string
  zod_suggest :: "json option \<Rightarrow> string + SuggestArgs"
  zod_confirm :: "json option \<Rightarrow> string + ConfirmArgs"
  zod_run :: "json option \<Rightarrow> string + RunArgs"
  plain_tool :: "string \<Rightarrow> json option \<Rightarrow> string + (bool \<times> json)"
  backend_getDataProfile :: "string \<Rightarrow> ProfileResult"
  backend_validateProcessedData :: "string \<Rightarrow> string \<Rightarrow> Validation"
  backend_runAnalysisWithSession :: "string \<Rightarrow> string \<Rightarrow> string \<Rightarrow> json \<Rightarrow> AnalysisResult"

subsection \<open>Authentication\<close>

definition falsy :: "string option \<Rightarrow> bool" where
  "falsy v \<longleftrightarrow> (case v of None \<Rightarrow> True | Some s \<Rightarrow> s = [])"

text \<open>
  Every error thrown inside the \<^verbatim>\<open>try\<close> of \<^verbatim>\<open>verifyJWT\<close>, the missing-field one
  included, is caught and thrown again with a prefix. A thrown \<^verbatim>\<open>Error\<close> is its
  message, in \<open>Inl\<close>.
\<close>

definition verifyJWT :: "environment \<Rightarrow> string \<Rightarrow> string + AuthContext" where
  "verifyJWT env tok =
     (case jwt_verify env tok of
        Inl msg \<Rightarrow> Inl (''JWT verification failed: '' @ msg)
      | Inr decoded \<Rightarrow>
          (case (sub decoded, tenant_claim decoded) of
             (Some u, Some t) \<Rightarrow>
               if u = [] \<or> t = []
               then Inl (''JWT verification failed: '' @ ''JWT missing required fields: sub or tenant'')
               else Inr \<lparr> user = u, tenant = t, scopes = parseScopes decoded, token = tok \<rparr>
           | _ \<Rightarrow> Inl (''JWT verification failed: '' @ ''JWT missing required fields: sub or tenant'')))"

definition extractBearerToken :: "string option \<Rightarrow> string option" where
  "extractBearerToken authHeader =
     (case authHeader of
        None \<Rightarrow> None
      | Some h \<Rightarrow> if h = [] \<or> take 7 h \<noteq> ''Bearer '' then None else Some (drop 7 h))"

text \<open>The fixed identity of the development bypass.\<close>

definition dev_context :: AuthContext where
  "dev_context = \<lparr> user = ''dev-user'', tenant = ''dev-tenant'', scopes = [''*''],
                   token = ''dev-token'' \<rparr>"

definition authenticateRequest ::
  "environment \<Rightarrow> string option \<Rightarrow> bool \<Rightarrow> string + AuthContext" where
  "authenticateRequest env authHeader skipAuth =
     (if skipAuth \<or> (NODE_ENV (penv env) = Some ''development'' \<and> SKIP_AUTH (penv env) = Some ''true'')
      then Inr dev_context
      else
        (case extractBearerToken authHeader of
           None \<Rightarrow> Inl ''Missing or invalid Authorization header. Expected: Bearer <token>''
         | Some tok \<Rightarrow>
             if tok = []
             then Inl ''Missing or invalid Authorization header. Expected: Bearer <token>''
             else
               (case verifyJWT env tok of
                  Inl msg \<Rightarrow> Inl (''Authentication failed: '' @ msg)
                | Inr auth \<Rightarrow> Inr auth)))"

section \<open>Audit recorder (src/utils/audit.ts)\<close>

text \<open>
  \<^verbatim>\<open>createHash('sha256').update(JSON.stringify(input)).digest('hex').slice(0, 16)\<close>.
  For an undefined input \<^verbatim>\<open>JSON.stringify\<close> returns \<^verbatim>\<open>undefined\<close> and \<^verbatim>\<open>update\<close>
  throws a \<^verbatim>\<open>TypeError\<close>; \<open>Inl\<close> carries its message.
\<close>

definition hash_type_error :: string where
  \<open>hash_type_error =
     ''The "data" argument must be of type string or an instance of Buffer, TypedArray, or DataView. Received undefined''\<close>

definition hashInput :: "environment \<Rightarrow> json option \<Rightarrow> string + string" where
  "hashInput env input =
     (case input of
        None \<Rightarrow> Inl hash_type_error
      | Some v \<Rightarrow> Inr (take 16 (sha256_hex env (json_stringify env v))))"

text \<open>
  The audit file is the list of the entries appended so far. \<open>auditEntry\<close> is the
  object literal of \<^verbatim>\<open>writeAuditLog\<close>, with the hash computed for it. The hash is
  computed before the \<^verbatim>\<open>try\<close>, so its error leaves \<^verbatim>\<open>writeAuditLog\<close> (\<open>Inl\<close>); a
  failed append is caught and only logged, and the file stays as it was.
\<close>

definition auditEntry ::
  "environment \<Rightarrow> AuthContext \<Rightarrow> string \<Rightarrow> string \<Rightarrow> bool \<Rightarrow> string \<Rightarrow>
   string option \<Rightarrow> string option \<Rightarrow> string option \<Rightarrow> string option \<Rightarrow> AuditLog" where
  "auditEntry env auth toolName h ok auditId preset sessionId outputUri err =
     \<lparr> timestamp = iso_now env,
       AuditLog.user = user auth,
       AuditLog.tenant = tenant auth,
       AuditLog.scopes = scopes auth,
       AuditLog.tool = toolName,
       input_hash = h,
       AuditLog.preset_id = preset,
       AuditLog.session_id = sessionId,
       output_uri = outputUri,
       AuditLog.audit_id = auditId,
       AuditLog.success = ok,
       AuditLog.error = err \<rparr>"

definition writeAuditLog ::
  "environment \<Rightarrow> AuthContext \<Rightarrow> string \<Rightarrow> json option \<Rightarrow> bool \<Rightarrow> string \<Rightarrow>
   string option \<Rightarrow> string option \<Rightarrow> string option \<Rightarrow> string option \<Rightarrow>
   AuditLog list \<Rightarrow> string + AuditLog list" where
  "writeAuditLog env auth toolName input ok auditId preset sessionId outputUri err file =
     (case hashInput env input of
        Inl msg \<Rightarrow> Inl msg
      | Inr h \<Rightarrow>
          (let entry = auditEntry env auth toolName h ok auditId preset sessionId outputUri err
           in Inr (if audit_write_ok env then file @ [entry] else file)))"

text \<open>The two closures of \<^verbatim>\<open>createAuditContext\<close>.\<close>

definition logSuccess ::
  "environment \<Rightarrow> AuthContext \<Rightarrow> string \<Rightarrow> json option \<Rightarrow> string \<Rightarrow>
   string option \<Rightarrow> string option \<Rightarrow> string option \<Rightarrow>
   AuditLog list \<Rightarrow> string + AuditLog list" where
  "logSuccess env auth toolName input auditId preset sessionId outputUri file =
     writeAuditLog env auth toolName input True auditId preset sessionId outputUri None file"

definition logError ::
  "environment \<Rightarrow> AuthContext \<Rightarrow> string \<Rightarrow> json option \<Rightarrow> string \<Rightarrow>
   string \<Rightarrow> string option \<Rightarrow> string option \<Rightarrow>
   AuditLog list \<Rightarrow> string + AuditLog list" where
  "logError env auth toolName input auditId err preset sessionId file =
     writeAuditLog env auth toolName input False auditId preset sessionId None (Some err) file"

section \<open>Tool dispatcher (src/server.ts)\<close>

text \<open>
  The three fixed candidates of \<^verbatim>\<open>generatePreprocessSuggestions\<close>; their labels and
  explanations are display texts, and each candidate is known by its preset id.
\<close>

datatype PreprocessCandidate = ResampleCandidate | SensorCandidate | BasicCandidate

fun candidate_preset_id :: "PreprocessCandidate \<Rightarrow> string" where
  "candidate_preset_id ResampleCandidate = ''resample_1m_ffill5_iqr3_z_by_gtag''"
| "candidate_preset_id SensorCandidate = ''sensor_clean_outlier_norm''"
| "candidate_preset_id BasicCandidate = ''basic_clean_norm''"

definition generatePreprocessSuggestions :: "Profile \<Rightarrow> PreprocessCandidate list" where
  "generatePreprocessSuggestions p =
     (let c1 = (if missing_rate_high p then [ResampleCandidate] else []);
          c2 = c1 @ (if dataType p = ''sensor_data'' then [SensorCandidate] else [])
      in if length c2 = 0 then [BasicCandidate] else c2)"

text \<open>
  The objects the tools return, one constructor for each shape:
  \<^item> an \<^verbatim>\<open>ErrorResponse\<close>;
  \<^item> \<^verbatim>\<open>{ candidates, audit_id, session_id }\<close>;
  \<^item> \<^verbatim>\<open>{ ready: true, session_id, audit_id }\<close>;
  \<^item> the object of \<^verbatim>\<open>runAnalysis\<close>: \<^verbatim>\<open>success\<close>, \<^verbatim>\<open>analysis_id\<close>, \<^verbatim>\<open>status\<close>,
    \<^verbatim>\<open>error\<close>, \<^verbatim>\<open>session_id\<close>, \<^verbatim>\<open>audit_id\<close> (and a time stamp);
  \<^item> the object of a plain tool: \<^verbatim>\<open>tool\<close>, \<^verbatim>\<open>success\<close>, further fields,
    \<^verbatim>\<open>audit_id\<close>; it has no field \<^verbatim>\<open>session_id\<close> or \<^verbatim>\<open>preset_id\<close>.
\<close>

datatype tool_result =
    ResultError ErrorResponse
  | ResultSuggest "PreprocessCandidate list" string string
  | ResultConfirm string string
  | ResultAnalysis bool "string option" "string option" "string option" string string
  | ResultPlain string bool json string

text \<open>\<^verbatim>\<open>result.session_id || undefined\<close> and \<^verbatim>\<open>result.preset_id || undefined\<close>.\<close>

definition truthy_string :: "string \<Rightarrow> string option" where
  "truthy_string s = (if s \<noteq> [] then Some s else None)"

fun result_session_id :: "tool_result \<Rightarrow> string option" where
  "result_session_id (ResultError e) = None"
| "result_session_id (ResultSuggest cs auditId sessionId) = truthy_string sessionId"
| "result_session_id (ResultConfirm sessionId auditId) = truthy_string sessionId"
| "result_session_id (ResultAnalysis ok aid stat err sessionId auditId) = truthy_string sessionId"
| "result_session_id (ResultPlain nm ok extra auditId) = None"

fun result_preset_id :: "tool_result \<Rightarrow> string option" where
  "result_preset_id r = None"

text \<open>The \<^verbatim>\<open>audit_id\<close> field of a returned object.\<close>

fun result_audit_id :: "tool_result \<Rightarrow> string option" where
  "result_audit_id (ResultError e) = audit_id e"
| "result_audit_id (ResultSuggest cs auditId sessionId) = Some auditId"
| "result_audit_id (ResultConfirm sessionId auditId) = Some auditId"
| "result_audit_id (ResultAnalysis ok aid stat err sessionId auditId) = Some auditId"
| "result_audit_id (ResultPlain nm ok extra auditId) = Some auditId"

text \<open>\<^verbatim>\<open>x || fallback\<close> on an optional string.\<close>

definition or_else :: "string option \<Rightarrow> string \<Rightarrow> string" where
  "or_else v fallback = (case v of None \<Rightarrow> fallback | Some s \<Rightarrow> if s \<noteq> [] then s else fallback)"

fun join_with :: "string \<Rightarrow> string list \<Rightarrow> string" where
  "join_with sep [] = []"
| "join_with sep [x] = x"
| "join_with sep (x # y # ys) = x @ sep @ join_with sep (y # ys)"

text \<open>
  The message of the \<^verbatim>\<open>TypeError\<close> of a property read on \<^verbatim>\<open>undefined\<close>.
\<close>

definition undefined_read_error :: "string \<Rightarrow> string" where
  "undefined_read_error field =
     ''Cannot read properties of undefined (reading '' @ [CHR 0x27] @ field @ [CHR 0x27] @ '')''"

text \<open>
  A tool either throws (\<open>Inl\<close>, the message of the error) or returns an object; in
  both cases the store it leaves is returned with it.
\<close>

definition suggestPreprocess ::
  "environment \<Rightarrow> SuggestArgs \<Rightarrow> AuthContext \<Rightarrow> string \<Rightarrow> store \<Rightarrow>
   (string + tool_result) \<times> store" where
  "suggestPreprocess env a auth auditId st =
     (let profileResult = backend_getDataProfile env (SuggestArgs.dataset_id a)
      in if \<not> ProfileResult.success profileResult
         then (Inl (''Preprocessing suggestion failed: '' @
                    or_else (ProfileResult.error profileResult) ''Failed to get data profile''), st)
         else
           (case profile profileResult of
              None \<Rightarrow>
                (Inl (''Preprocessing suggestion failed: '' @ undefined_read_error ''missingRate''), st)
            | Some p \<Rightarrow>
                (let candidates = generatePreprocessSuggestions p;
                     (sessionId, st') =
                        createSession (SuggestArgs.dataset_id a) (map candidate_preset_id candidates)
                          \<lparr> user = user auth, tenant = tenant auth \<rparr>
                          (date_now env) (random_fragment env) st
                 in (Inr (ResultSuggest candidates auditId sessionId), st'))))"

definition confirmPreprocessed ::
  "environment \<Rightarrow> ConfirmArgs \<Rightarrow> AuthContext \<Rightarrow> string \<Rightarrow> store \<Rightarrow>
   (string + tool_result) \<times> store" where
  "confirmPreprocessed env a auth auditId st =
     (case getSessionByDataset st (ConfirmArgs.dataset_id a) of
        None \<Rightarrow>
          (Inr (ResultError
                  (errorNext ''SESSION_NOT_FOUND'' MsgConfirmSessionNotFound
                     [\<lparr> tool = ''toorpia_suggest_preprocess'',
                        args = JObj [(''dataset_id'', JStr (ConfirmArgs.dataset_id a))] \<rparr>]
                     (Some auditId))), st)
      | Some session \<Rightarrow>
          if Manifest.preset_id (manifest a) \<notin> set (suggestedPresetIds session)
          then (Inl (''Preprocessing confirmation failed: '' @
                     ''Invalid preset_id. Must be one of: '' @
                     join_with '', '' (suggestedPresetIds session)), st)
          else
            (let validation = backend_validateProcessedData env (processed_uri a)
                                (Manifest.checksum (manifest a))
             in if \<not> valid validation
                then (Inl (''Preprocessing confirmation failed: '' @
                           or_else (Validation.error validation) ''Processed data validation failed''), st)
                else
                  (let sessionId = make_session_id (date_now env) (random_fragment env);
                       (updated, st') =
                          updateSession sessionId READY
                            (Some \<lparr> uri = processed_uri a,
                                    checksum = Manifest.checksum (manifest a),
                                    presetId = Manifest.preset_id (manifest a),
                                    profileId = profile_id (manifest a),
                                    recipeVersion = recipe_version (manifest a),
                                    rowCount = Some (row_count (manifest a)),
                                    schema = Some (Manifest.schema (manifest a)) \<rparr>) st
                   in if \<not> updated
                      then (Inl (''Preprocessing confirmation failed: '' @
                                 ''Failed to update session state''), st')
                      else (Inr (ResultConfirm sessionId auditId), st'))))"

text \<open>
  \<^verbatim>\<open>runAnalysis\<close> never throws: a failed gate returns the gate's error, and an error
  inside its \<^verbatim>\<open>try\<close> (the read of \<^verbatim>\<open>session.processed!.uri\<close> on a session without a
  processed record is one) returns a failure object.
\<close>

definition runAnalysis ::
  "environment \<Rightarrow> RunArgs \<Rightarrow> AuthContext \<Rightarrow> string \<Rightarrow> store \<Rightarrow> tool_result \<times> store" where
  "runAnalysis env a auth auditId st =
     (case checkReadyGate st (RunArgs.session_id a) auth auditId of
        Inl e \<Rightarrow> (ResultError e, st)
      | Inr session \<Rightarrow>
          (case processed session of
             None \<Rightarrow>
               (ResultAnalysis False None None (Some (undefined_read_error ''uri''))
                  (RunArgs.session_id a) auditId, st)
           | Some p \<Rightarrow>
               (let r = backend_runAnalysisWithSession env (RunArgs.session_id a) (uri p)
                          (or_else (analysis_type a) ''clustering'')
                          (case parameters a of None \<Rightarrow> JObj [] | Some ps \<Rightarrow> ps);
                    (updated, st') = updateSession (RunArgs.session_id a) ANALYZED None st
                in (ResultAnalysis (AnalysisResult.success r) (analysisId r) (AnalysisResult.status r)
                      (AnalysisResult.error r) (RunArgs.session_id a) auditId, st'))))"

definition executeTool ::
  "environment \<Rightarrow> string \<Rightarrow> json option \<Rightarrow> AuthContext \<Rightarrow> string \<Rightarrow> store \<Rightarrow>
   (string + tool_result) \<times> store" where
  "executeTool env toolName input auth auditId st =
     (if toolName = ''toorpia_upload_data'' \<or> toolName = ''toorpia_get_status''
         \<or> toolName = ''toorpia_collect_feedback''
      then
        (case plain_tool env toolName input of
           Inl msg \<Rightarrow> (Inl msg, st)
         | Inr (ok, extra) \<Rightarrow> (Inr (ResultPlain toolName ok extra auditId), st))
      else if toolName = ''toorpia_suggest_preprocess''
      then
        (if \<not> checkScope auth ''mcp:profile''
         then (Inl ''Insufficient permissions: mcp:profile scope required'', st)
         else (case zod_suggest env input of
                 Inl msg \<Rightarrow> (Inl msg, st)
               | Inr a \<Rightarrow> suggestPreprocess env a auth auditId st))
      else if toolName = ''toorpia_confirm_preprocessed''
      then
        (if \<not> checkScope auth ''mcp:profile''
         then (Inl ''Insufficient permissions: mcp:profile scope required'', st)
         else (case zod_confirm env input of
                 Inl msg \<Rightarrow> (Inl msg, st)
               | Inr a \<Rightarrow> confirmPreprocessed env a auth auditId st))
      else if toolName = ''toorpia_run_analysis''
      then
        (if \<not> checkScope auth ''mcp:analyze''
         then (Inl ''Insufficient permissions: mcp:analyze scope required'', st)
         else (case zod_run env input of
                 Inl msg \<Rightarrow> (Inl msg, st)
               | Inr a \<Rightarrow> (case runAnalysis env a auth auditId st of (r, st') \<Rightarrow> (Inr r, st'))))
      else (Inl (''Unknown tool: '' @ toolName), st))"

subsection \<open>The call handler\<close>

record request =
  name :: string
  arguments :: "json option"
  authorization :: "string option"

record server_state =
  session_store :: store
  audit_file :: "AuditLog list"

datatype response = ToolContent tool_result | McpError string

text \<open>
  The \<^verbatim>\<open>catch\<close> block of the handler: it authenticates again with \<^verbatim>\<open>skipAuth\<close> set,
  writes the error entry, swallows whatever that throws, and throws the protocol
  error.
\<close>

definition handle_error ::
  "environment \<Rightarrow> request \<Rightarrow> string \<Rightarrow> string \<Rightarrow> AuditLog list \<Rightarrow> response \<times> AuditLog list" where
  "handle_error env req auditId msg file =
     (let file' =
            (case authenticateRequest env (authorization req) True of
               Inl authError \<Rightarrow> file
             | Inr auth \<Rightarrow>
                 (case logError env auth (name req) (arguments req) auditId msg None None file of
                    Inl authError \<Rightarrow> file
                  | Inr f \<Rightarrow> f))
      in (McpError (''Error executing tool '' @ name req @ '': '' @ msg), file'))"

definition handleCall :: "environment \<Rightarrow> request \<Rightarrow> server_state \<Rightarrow> response \<times> server_state" where
  "handleCall env req s =
     (let auditId = generated_audit_id env
      in case authenticateRequest env (authorization req)
                (NODE_ENV (penv env) = Some ''development'') of
           Inl msg \<Rightarrow>
             (case handle_error env req auditId msg (audit_file s) of
                (resp, file') \<Rightarrow> (resp, s \<lparr> audit_file := file' \<rparr>))
         | Inr auth \<Rightarrow>
             (case executeTool env (name req) (arguments req) auth auditId (session_store s) of
                (Inl msg, st') \<Rightarrow>
                  (case handle_error env req auditId msg (audit_file s) of
                     (resp, file') \<Rightarrow> (resp, \<lparr> session_store = st', audit_file = file' \<rparr>))
              | (Inr r, st') \<Rightarrow>
                  (case logSuccess env auth (name req) (arguments req) auditId
                          (result_preset_id r) (result_session_id r) None (audit_file s) of
                     Inl msg \<Rightarrow>
                       (case handle_error env req auditId msg (audit_file s) of
                          (resp, file') \<Rightarrow> (resp, \<lparr> session_store = st', audit_file = file' \<rparr>))
                   | Inr file' \<Rightarrow>
                       (ToolContent r, \<lparr> session_store = st', audit_file = file' \<rparr>))))"

section \<open>Histories and invariants\<close>

text \<open>
  A history of the store: creations, updates and sweeps (with the default window) in
  any order, each creation and each sweep with the clock reading of its moment.
\<close>

datatype operation =
    Create string "string list" Owner nat string
  | Update string State "Processed option"
  | Sweep nat

fun apply_operation :: "operation \<Rightarrow> store \<Rightarrow> store" where
  "apply_operation (Create dataset presets own now rnd) st =
     snd (createSession dataset presets own now rnd st)"
| "apply_operation (Update sessionId x proc) st = snd (updateSession sessionId x proc st)"
| "apply_operation (Sweep now) st = cleanupSessions default_max_age now st"

definition run_operations :: "operation list \<Rightarrow> store \<Rightarrow> store" where
  "run_operations ops st = fold apply_operation ops st"

text \<open>No sweep of the history runs later than the window after \<open>created\<close>.\<close>

fun sweep_within :: "nat \<Rightarrow> operation \<Rightarrow> bool" where
  "sweep_within created (Sweep now) \<longleftrightarrow> int now - int created \<le> default_max_age"
| "sweep_within created other \<longleftrightarrow> True"

text \<open>
  The invariant of the data model: a session has a processed record exactly when its
  state is \<open>READY\<close> or \<open>ANALYZED\<close>; a store satisfies it when each of its sessions does.
\<close>

definition session_consistent :: "Session \<Rightarrow> bool" where
  "session_consistent s \<longleftrightarrow> (processed s \<noteq> None) = (state s = READY \<or> state s = ANALYZED)"

definition processed_invariant :: "store \<Rightarrow> bool" where
  "processed_invariant st \<longleftrightarrow> list_all (\<lambda>(sessionId, s). session_consistent s) (sessions st)"

text \<open>The characters of a decimal rendering.\<close>

definition decimal_digits :: "char set" where
  "decimal_digits = set ''0123456789''"

text \<open>The characters of a lower-case hexadecimal rendering.\<close>

definition hex_digits :: "char set" where
  "hex_digits = set ''0123456789abcdef''"

section \<open>Example values\<close>

text \<open>Concrete stores, identities and calls, on which the theorems below are instantiated.\<close>

definition example_owner :: Owner where
  "example_owner = \<lparr> user = ''alice'', tenant = ''tenantA'' \<rparr>"

definition example_session :: "State \<Rightarrow> Session" where
  "example_session x =
     \<lparr> datasetId = ''d1'', state = x, suggestedPresetIds = [''a'', ''b''],
       processed = None, owner = example_owner \<rparr>"

definition example_store :: "State \<Rightarrow> store" where
  "example_store x =
     \<lparr> sessions = [(''sess_1000_abc'', example_session x)],
       sessionsByDataset = [(''d1'', ''sess_1000_abc'')] \<rparr>"

definition alice :: AuthContext where
  "alice = \<lparr> user = ''alice'', tenant = ''tenantA'', scopes = [''mcp:profile'', ''mcp:analyze''],
             token = ''token-a'' \<rparr>"

definition bob :: AuthContext where
  "bob = \<lparr> user = ''bob'', tenant = ''tenantB'', scopes = [''mcp:profile'', ''mcp:analyze''],
           token = ''token-b'' \<rparr>"

definition example_payload :: JWTPayload where
  "example_payload =
     \<lparr> sub = Some ''alice'', tenant_claim = Some ''tenantA'',
       scope = Some ''mcp:profile  mcp:analyze'', scopes_claim = None,
       iat = Some 0, exp = Some 600 \<rparr>"

definition example_manifest :: Manifest where
  "example_manifest =
     \<lparr> preset_id = ''a'', profile_id = ''p1'', recipe_version = ''v1.0'',
       checksum = ''sha256:00'', row_count = 10,
       schema = \<lparr> time_col = ''t'', value_cols = [''v''] \<rparr> \<rparr>"

definition example_confirm_args :: ConfirmArgs where
  "example_confirm_args =
     \<lparr> dataset_id = ''d1'', processed_uri = ''file:///data/d1.csv'', manifest = example_manifest \<rparr>"

definition example_run_args :: RunArgs where
  "example_run_args = \<lparr> session_id = ''sess_1000_abc'', analysis_type = None, parameters = None \<rparr>"

text \<open>A stand-in digest of 64 hexadecimal characters, and a stand-in serialiser.\<close>

definition zero_padding :: string where
  "zero_padding = ''0000000000000000000000000000000000000000000000000000000000000000''"

definition example_digest :: "string \<Rightarrow> string" where
  "example_digest s = take 64 (map (\<lambda>c. digit_char (of_char c mod 10)) s @ zero_padding)"

fun example_stringify :: "json \<Rightarrow> string" where
  "example_stringify (JStr s) = s"
| "example_stringify (JNum n) = (if n < 0 then ''-'' else []) @ string_of_nat (nat \<bar>n\<bar>)"
| "example_stringify (JBool b) = (if b then ''true'' else ''false'')"
| "example_stringify JNull = ''null''"
| "example_stringify (JArr xs) = ''[]''"
| "example_stringify (JObj fs) = concat (map fst fs)"

definition example_env :: environment where
  "example_env =
     \<lparr> penv = \<lparr> NODE_ENV = Some ''production'', SKIP_AUTH = None \<rparr>,
       jwt_verify = (\<lambda>tok. if tok = ''token-a'' then Inr example_payload
                           else Inl ''invalid signature''),
       sha256_hex = example_digest,
       json_stringify = example_stringify,
       audit_write_ok = True,
       iso_now = ''2025-08-19T00:00:00.000Z'',
       date_now = 2000,
       random_fragment = ''xyz'',
       generated_audit_id = ''audit_20250819000000._k3j9x0abc'',
       zod_suggest = (\<lambda>input. Inl ''Required''),
       zod_confirm = (\<lambda>input. Inr example_confirm_args),
       zod_run = (\<lambda>input. Inr example_run_args),
       plain_tool = (\<lambda>toolName input. Inr (True, JObj [])),
       backend_getDataProfile =
         (\<lambda>dataset. \<lparr> ProfileResult.success = False, profile = None,
                       ProfileResult.error = Some ''Network Error'' \<rparr>),
       backend_validateProcessedData =
         (\<lambda>u c. \<lparr> valid = True, Validation.error = None \<rparr>),
       backend_runAnalysisWithSession =
         (\<lambda>sessionId u kind ps.
            \<lparr> AnalysisResult.success = True, analysisId = Some ''an1'',
              AnalysisResult.status = Some ''started'', estimatedTime = None,
              AnalysisResult.error = None \<rparr>) \<rparr>"

definition example_input :: json where
  "example_input = JObj [(''session_id'', JStr ''sess_1000_abc'')]"

definition anonymous_request :: request where
  "anonymous_request =
     \<lparr> name = ''toorpia_run_analysis'', arguments = Some example_input, authorization = None \<rparr>"

definition missing_header_message :: string where
  "missing_header_message = ''Missing or invalid Authorization header. Expected: Bearer <token>''"

definition two_sessions :: store where
  "two_sessions =
     snd (createSession ''d1'' [''b''] example_owner 2000 ''xyz''
       (snd (createSession ''d1'' [''a''] example_owner 1000 ''abc'' empty_store)))"

definition first_session :: Session where
  "first_session = \<lparr> datasetId = ''d1'', state = SUGGESTED, suggestedPresetIds = [''a''],
                     processed = None, owner = example_owner \<rparr>"

definition second_session :: Session where
  "second_session = \<lparr> datasetId = ''d1'', state = SUGGESTED, suggestedPresetIds = [''b''],
                      processed = None, owner = example_owner \<rparr>"

definition colliding_sessions :: store where
  "colliding_sessions =
     snd (createSession ''d1'' [''b''] example_owner 1000 ''abc''
       (snd (createSession ''d1'' [''a''] example_owner 1000 ''abc'' empty_store)))"

definition example_processed :: Processed where
  "example_processed =
     \<lparr> uri = ''file:///data/d1.csv'', checksum = ''sha256:00'', presetId = ''a'',
       profileId = ''p1'', recipeVersion = ''v1.0'', rowCount = Some 10,
       schema = Some \<lparr> time_col = ''t'', value_cols = [''v''] \<rparr> \<rparr>"

definition ready_store :: store where
  "ready_store =
     snd (updateSession ''sess_1000_abc'' READY (Some example_processed) (example_store SUGGESTED))"

definition alice_request :: request where
  "alice_request =
     \<lparr> name = ''toorpia_run_analysis'', arguments = Some example_input,
       authorization = Some ''Bearer token-a'' \<rparr>"

definition suggested_state :: server_state where
  "suggested_state = \<lparr> session_store = example_store SUGGESTED, audit_file = [] \<rparr>"

definition bob_payload :: JWTPayload where
  "bob_payload =
     \<lparr> sub = Some ''bob'', tenant_claim = Some ''tenantB'', scope = None,
       scopes_claim = Some [''mcp:profile'', ''mcp:analyze''], iat = Some 0, exp = Some 600 \<rparr>"

definition bob_env :: environment where
  "bob_env =
     example_env \<lparr> jwt_verify := (\<lambda>tok. if tok = ''token-b'' then Inr bob_payload
                                           else Inl ''invalid signature'') \<rparr>"

definition bob_request :: request where
  "bob_request =
     \<lparr> name = ''toorpia_run_analysis'', arguments = Some example_input,
       authorization = Some ''Bearer token-b'' \<rparr>"

definition ready_state :: server_state where
  "ready_state = \<lparr> session_store = ready_store, audit_file = [] \<rparr>"

section \<open>Properties\<close>

subsection \<open>The READY gate\<close>

text \<open>
  Claim C4. For an existing session whose owner differs from the caller in user or
  tenant, the gate fails with a response whose error code is \<^verbatim>\<open>ACCESS_DENIED\<close>, whose
  list of next actions is empty and whose audit id is the call's, and the answer stays
  the same when the state of that session is replaced by any other state: ownership
  is tested before the state is read.
\<close>

theorem checkReadyGate_denies_other_owner:
  assumes "getSession st sessionId = Some s"
    and "user (owner s) \<noteq> user auth \<or> tenant (owner s) \<noteq> tenant auth"
  shows "(\<exists>e. checkReadyGate st sessionId auth auditId = Inl e
              \<and> ErrorResponse.error e = ''ACCESS_DENIED''
              \<and> message e = MsgGateAccessDenied
              \<and> nextActions e = []
              \<and> audit_id e = Some auditId)
         \<and> (\<forall>x. checkReadyGate
                   (st \<lparr> sessions := AList.update sessionId (s \<lparr> state := x \<rparr>) (sessions st) \<rparr>)
                   sessionId auth auditId
                 = checkReadyGate st sessionId auth auditId)"
  using assms
  by (simp add: checkReadyGate_def getSession_def errorNext_def update_conv')

theorem checkReadyGate_denies_other_owner_witness:
  "getSession (example_store READY) ''sess_1000_abc'' = Some (example_session READY)
   \<and> user (owner (example_session READY)) \<noteq> user bob
   \<and> isl (checkReadyGate (example_store READY) ''sess_1000_abc'' bob ''audit_1'')
   \<and> ErrorResponse.error (projl (checkReadyGate (example_store READY) ''sess_1000_abc'' bob ''audit_1''))
       = ''ACCESS_DENIED''
   \<and> nextActions (projl (checkReadyGate (example_store READY) ''sess_1000_abc'' bob ''audit_1''))
       = []
   \<and> audit_id (projl (checkReadyGate (example_store READY) ''sess_1000_abc'' bob ''audit_1''))
       = Some ''audit_1''
   \<and> checkReadyGate (example_store SUGGESTED) ''sess_1000_abc'' bob ''audit_1'' =
       checkReadyGate (example_store READY) ''sess_1000_abc'' bob ''audit_1''"
proof -
  have h1: "getSession (example_store READY) ''sess_1000_abc'' = Some (example_session READY)"
    by (simp add: getSession_def example_store_def)
  have h2: "user (owner (example_session READY)) \<noteq> user bob
        \<or> tenant (owner (example_session READY)) \<noteq> tenant bob"
    by (simp add: example_session_def example_owner_def bob_def)
  have upd: "example_store READY \<lparr> sessions :=
       AList.update ''sess_1000_abc'' (example_session READY \<lparr> state := SUGGESTED \<rparr>)
         (sessions (example_store READY)) \<rparr> = example_store SUGGESTED"
    by (simp add: example_store_def example_session_def)
  have h3: "user (owner (example_session READY)) \<noteq> user bob"
    by (simp add: example_session_def example_owner_def bob_def)
  note t = checkReadyGate_denies_other_owner [OF h1 h2, of "''audit_1''"]
  from t obtain e where
    e: "checkReadyGate (example_store READY) ''sess_1000_abc'' bob ''audit_1'' = Inl e"
      "ErrorResponse.error e = ''ACCESS_DENIED''" "nextActions e = []"
      "audit_id e = Some ''audit_1''"
    by blast
  from t have "checkReadyGate (example_store SUGGESTED) ''sess_1000_abc'' bob ''audit_1'' =
       checkReadyGate (example_store READY) ''sess_1000_abc'' bob ''audit_1''"
    using upd by metis
  with e h1 h3 show ?thesis by simp
qed




subsection \<open>Scopes of a verified token\<close>

lemma split_on_not_Nil: "split_on c s \<noteq> []"
  by (induction s) (auto split: list.splits)

lemma split_on_no_separator: "w \<in> set (split_on c s) \<Longrightarrow> c \<notin> set w"
proof (induction s arbitrary: w)
  case Nil
  then show ?case by simp
next
  case (Cons x xs)
  then show ?case
    by (cases "split_on c xs") (auto split: if_splits)
qed

lemma split_on_single: "c \<notin> set w \<Longrightarrow> split_on c w = [w]"
  by (induction w) auto

lemma split_on_append: "c \<notin> set xs \<Longrightarrow> split_on c (xs @ c # ys) = xs # split_on c ys"
  by (induction xs) auto

lemma split_on_join:
  "ws \<noteq> [] \<Longrightarrow> \<forall>w \<in> set ws. c \<notin> set w \<Longrightarrow> split_on c (join_with [c] ws) = ws"
proof (induction "[c]" ws rule: join_with.induct)
  case 1
  then show ?case by simp
next
  case (2 x)
  then show ?case by (simp add: split_on_single)
next
  case (3 x y ys)
  then show ?case by (simp add: split_on_append)
qed

lemma filter_nonempty_id: "\<forall>w \<in> set ws. w \<noteq> [] \<Longrightarrow> filter (\<lambda>f. length f > 0) ws = ws"
  by (induction ws) auto

lemma join_with_Nil: "join_with sep ws = [] \<Longrightarrow> \<forall>w \<in> set ws. w \<noteq> [] \<Longrightarrow> ws = []"
  by (induction sep ws rule: join_with.induct) auto

lemma scope_words_roundtrip:
  assumes "\<forall>w \<in> set ws. w \<noteq> [] \<and> c \<notin> set w"
  shows "filter (\<lambda>f. length f > 0) (split_on c (join_with [c] ws)) = ws"
proof (cases "ws = []")
  case True
  then show ?thesis by simp
next
  case False
  with assms have "split_on c (join_with [c] ws) = ws"
    by (simp add: split_on_join)
  with assms show ?thesis
    by (simp add: filter_nonempty_id)
qed

text \<open>
  Claim C9. For a verified token with subject and tenant, \<^verbatim>\<open>verifyJWT\<close> returns an
  identity (no error) whose scopes are those of \<^verbatim>\<open>parseScopes\<close>: the list claim when
  it is present; otherwise the string claim split at spaces with the empty fragments
  dropped, so that every scope is non-empty and free of spaces, and a string of
  well-formed scopes joined by single spaces gives back exactly those scopes; and the
  empty list when the token has neither claim.
\<close>

theorem parseScopes_verified:
  assumes "jwt_verify env tok = Inr decoded"
    and "sub decoded = Some u" and "tenant_claim decoded = Some t"
    and "u \<noteq> []" and "t \<noteq> []"
  shows "verifyJWT env tok =
           Inr \<lparr> user = u, tenant = t, scopes = parseScopes decoded, token = tok \<rparr>
       \<and> (\<forall>l. scopes_claim decoded = Some l \<longrightarrow> parseScopes decoded = l)
       \<and> (\<forall>s. scopes_claim decoded = None \<and> scope decoded = Some s \<longrightarrow>
              parseScopes decoded = filter (\<lambda>f. f \<noteq> []) (split_on CHR '' '' s)
              \<and> (\<forall>f \<in> set (parseScopes decoded). f \<noteq> [] \<and> CHR '' '' \<notin> set f))
       \<and> (\<forall>ws. scopes_claim decoded = None \<and> scope decoded = Some (join_with '' '' ws)
                \<and> (\<forall>w \<in> set ws. w \<noteq> [] \<and> CHR '' '' \<notin> set w) \<longrightarrow>
              parseScopes decoded = ws)
       \<and> (scopes_claim decoded = None \<and> scope decoded = None \<longrightarrow> parseScopes decoded = [])"
proof -
  have v: "verifyJWT env tok =
           Inr \<lparr> user = u, tenant = t, scopes = parseScopes decoded, token = tok \<rparr>"
    using assms by (simp add: verifyJWT_def)
  have a: "\<forall>l. scopes_claim decoded = Some l \<longrightarrow> parseScopes decoded = l"
    by (simp add: parseScopes_def)
  have b: "parseScopes decoded = filter (\<lambda>f. f \<noteq> []) (split_on CHR '' '' s)
           \<and> (\<forall>f \<in> set (parseScopes decoded). f \<noteq> [] \<and> CHR '' '' \<notin> set f)"
    if "scopes_claim decoded = None \<and> scope decoded = Some s" for s
    using that by (auto simp: parseScopes_def dest: split_on_no_separator)
  have c: "parseScopes decoded = ws"
    if "scopes_claim decoded = None \<and> scope decoded = Some (join_with '' '' ws)
          \<and> (\<forall>w \<in> set ws. w \<noteq> [] \<and> CHR '' '' \<notin> set w)" for ws
  proof -
    from that have "filter (\<lambda>f. length f > 0) (split_on CHR '' '' (join_with '' '' ws)) = ws"
      by (intro scope_words_roundtrip) simp
    moreover have "join_with '' '' ws = [] \<Longrightarrow> ws = []"
      using that join_with_Nil [of "'' ''" ws] by simp
    ultimately show ?thesis using that by (auto simp: parseScopes_def)
  qed
  have d: "scopes_claim decoded = None \<and> scope decoded = None \<longrightarrow> parseScopes decoded = []"
    by (simp add: parseScopes_def)
  from v a b c d show ?thesis by blast
qed

theorem parseScopes_verified_witness:
  "jwt_verify example_env ''token-a'' = Inr example_payload
   \<and> verifyJWT example_env ''token-a'' =
       Inr \<lparr> user = ''alice'', tenant = ''tenantA'',
             scopes = [''mcp:profile'', ''mcp:analyze''], token = ''token-a'' \<rparr>
   \<and> parseScopes (example_payload \<lparr> scope := None \<rparr>) = []
   \<and> parseScopes (example_payload \<lparr> scopes_claim := Some [''*''] \<rparr>) = [''*'']"
proof -
  have j: "jwt_verify example_env ''token-a'' = Inr example_payload"
    by (simp add: example_env_def)
  have j2: "jwt_verify (example_env \<lparr> jwt_verify := \<lambda>tok. Inr (example_payload \<lparr> scope := None \<rparr>) \<rparr>) ''token-a''
      = Inr (example_payload \<lparr> scope := None \<rparr>)"
    by simp
  have j3: "jwt_verify (example_env \<lparr> jwt_verify := \<lambda>tok. Inr (example_payload \<lparr> scopes_claim := Some [''*''] \<rparr>) \<rparr>) ''token-a''
      = Inr (example_payload \<lparr> scopes_claim := Some [''*''] \<rparr>)"
    by simp
  have p: "parseScopes example_payload = [''mcp:profile'', ''mcp:analyze'']"
    using parseScopes_verified [OF j, of "''alice''" "''tenantA''"]
    by (simp add: example_payload_def)
  have v: "verifyJWT example_env ''token-a'' =
       Inr \<lparr> user = ''alice'', tenant = ''tenantA'',
             scopes = parseScopes example_payload, token = ''token-a'' \<rparr>"
    using parseScopes_verified [OF j, of "''alice''" "''tenantA''"]
    by (simp add: example_payload_def)
  have n: "parseScopes (example_payload \<lparr> scope := None \<rparr>) = []"
    using parseScopes_verified [OF j2, of "''alice''" "''tenantA''"]
    by (simp add: example_payload_def)
  have l: "parseScopes (example_payload \<lparr> scopes_claim := Some [''*''] \<rparr>) = [''*'']"
    using parseScopes_verified [OF j3, of "''alice''" "''tenantA''"]
    by (simp add: example_payload_def)
  from j p v n l show ?thesis by simp
qed

subsection \<open>Audit entries\<close>

lemma hashInput_Some:
  "hashInput env (Some v) = Inr (take 16 (sha256_hex env (json_stringify env v)))"
  by (simp add: hashInput_def)

subsection \<open>Confirmation of processed data\<close>

text \<open>
  Whatever \<^verbatim>\<open>confirmPreprocessed\<close> returns as the session id is the identifier it has
  just generated from the clock and the random source.
\<close>

lemma confirmPreprocessed_returns_generated_id:
  assumes "confirmPreprocessed env a auth auditId st = (Inr (ResultConfirm sessionId x), st')"
  shows "sessionId = make_session_id (date_now env) (random_fragment env)"
  using assms
  by (auto simp: confirmPreprocessed_def Let_def errorNext_def
           split: option.splits if_splits prod.splits)

text \<open>
  When that identifier is not a key of the store (it is a new one, unless clock and
  random fragment repeat those of an earlier call), a confirmation that passes the
  preset check and the artifact validation throws and leaves the store as it was.
\<close>

lemma confirmPreprocessed_fresh_id:
  assumes "getSessionByDataset st (ConfirmArgs.dataset_id a) = Some s"
    and "Manifest.preset_id (manifest a) \<in> set (suggestedPresetIds s)"
    and "valid (backend_validateProcessedData env (processed_uri a) (Manifest.checksum (manifest a)))"
    and "getSession st (make_session_id (date_now env) (random_fragment env)) = None"
  shows "confirmPreprocessed env a auth auditId st =
           (Inl ''Preprocessing confirmation failed: Failed to update session state'', st)"
  using assms
  by (simp add: confirmPreprocessed_def Let_def updateSession_def getSession_def)

text \<open>
  Claim C1, on the code. The store holds a \<open>SUGGESTED\<close> session for dataset \<^verbatim>\<open>d1\<close>
  with candidates \<^verbatim>\<open>a\<close> and \<^verbatim>\<open>b\<close>; the confirmation chooses \<^verbatim>\<open>a\<close> and the backend
  accepts the artifact. The call does not return the session's id: it throws, and the
  session is still \<open>SUGGESTED\<close> without a processed record.
\<close>

theorem confirmPreprocessed_misses_session:
  "getSessionByDataset (example_store SUGGESTED) (ConfirmArgs.dataset_id example_confirm_args)
     = Some (example_session SUGGESTED)
   \<and> Manifest.preset_id (manifest example_confirm_args)
       \<in> set (suggestedPresetIds (example_session SUGGESTED))
   \<and> valid (backend_validateProcessedData example_env (processed_uri example_confirm_args)
              (Manifest.checksum (manifest example_confirm_args)))
   \<and> confirmPreprocessed example_env example_confirm_args alice ''audit_1''
         (example_store SUGGESTED)
       = (Inl ''Preprocessing confirmation failed: Failed to update session state'',
          example_store SUGGESTED)
   \<and> state (example_session SUGGESTED) = SUGGESTED
   \<and> processed (example_session SUGGESTED) = None"
proof -
  have g: "getSessionByDataset (example_store SUGGESTED) (ConfirmArgs.dataset_id example_confirm_args)
     = Some (example_session SUGGESTED)"
    by (simp add: getSessionByDataset_def example_store_def example_confirm_args_def)
  have p: "Manifest.preset_id (manifest example_confirm_args)
       \<in> set (suggestedPresetIds (example_session SUGGESTED))"
    by (simp add: example_confirm_args_def example_manifest_def example_session_def)
  have v: "valid (backend_validateProcessedData example_env (processed_uri example_confirm_args)
              (Manifest.checksum (manifest example_confirm_args)))"
    by (simp add: example_env_def)
  have "make_session_id (date_now example_env) (random_fragment example_env) = ''sess_2000_xyz''"
    by (simp add: example_env_def make_session_id_def string_of_nat.simps digit_char_def)
  then have f: "getSession (example_store SUGGESTED)
             (make_session_id (date_now example_env) (random_fragment example_env)) = None"
    by (simp add: getSession_def example_store_def)
  from confirmPreprocessed_fresh_id [OF g p v f] g p v
  show ?thesis by (simp add: example_session_def)
qed

subsection \<open>The development bypass\<close>

text \<open>
  On the path that executes a tool, outside a development runtime, the identity is
  that of a verified bearer token.
\<close>

lemma executed_identity_outside_development:
  assumes "NODE_ENV (penv env) \<noteq> Some ''development''"
    and "authenticateRequest env authHeader (NODE_ENV (penv env) = Some ''development'') = Inr auth"
  shows "\<exists>tok. extractBearerToken authHeader = Some tok \<and> verifyJWT env tok = Inr auth"
  using assms
  by (auto simp: authenticateRequest_def split: option.splits if_splits sum.splits)

text \<open>
  In a development runtime the handler passes \<^verbatim>\<open>skipAuth = true\<close>, so the bypass
  identity is used whether or not \<^verbatim>\<open>SKIP_AUTH\<close> is set.
\<close>

lemma bypass_in_development:
  "NODE_ENV (penv env) = Some ''development'' \<Longrightarrow>
   authenticateRequest env authHeader (NODE_ENV (penv env) = Some ''development'') = Inr dev_context"
  by (simp add: authenticateRequest_def)

text \<open>
  Claim C3, on the code. The runtime is \<^verbatim>\<open>production\<close> and \<^verbatim>\<open>SKIP_AUTH\<close> is unset; a call
  without credential fails authentication, and the handler's \<^verbatim>\<open>catch\<close> block then
  resolves the call to the bypass identity (\<^verbatim>\<open>skipAuth\<close> is the constant \<^verbatim>\<open>true\<close>
  there) and writes the audit entry under it, with the scope \<^verbatim>\<open>*\<close>.
\<close>

theorem bypass_reached_outside_development:
  "NODE_ENV (penv example_env) = Some ''production''
   \<and> SKIP_AUTH (penv example_env) = None
   \<and> authenticateRequest example_env (authorization anonymous_request)
         (NODE_ENV (penv example_env) = Some ''development'') = Inl missing_header_message
   \<and> authenticateRequest example_env (authorization anonymous_request) True = Inr dev_context
   \<and> handleCall example_env anonymous_request
         \<lparr> session_store = example_store READY, audit_file = [] \<rparr>
       = (McpError (''Error executing tool toorpia_run_analysis: '' @ missing_header_message),
          \<lparr> session_store = example_store READY,
            audit_file =
              [auditEntry example_env dev_context ''toorpia_run_analysis'' ''5155510550000000''
                 False ''audit_20250819000000._k3j9x0abc'' None None None
                 (Some missing_header_message)] \<rparr>)
   \<and> AuditLog.user (auditEntry example_env dev_context ''toorpia_run_analysis''
         ''5155510550000000'' False ''audit_20250819000000._k3j9x0abc'' None None None
         (Some missing_header_message)) = ''dev-user''
   \<and> AuditLog.scopes (auditEntry example_env dev_context ''toorpia_run_analysis''
         ''5155510550000000'' False ''audit_20250819000000._k3j9x0abc'' None None None
         (Some missing_header_message)) = [''*'']"
proof -
  have e: "NODE_ENV (penv example_env) = Some ''production''" "SKIP_AUTH (penv example_env) = None"
    by (simp_all add: example_env_def)
  have a1: "authenticateRequest example_env (authorization anonymous_request)
         (NODE_ENV (penv example_env) = Some ''development'') = Inl missing_header_message"
    by (simp add: authenticateRequest_def e anonymous_request_def extractBearerToken_def
          missing_header_message_def)
  have a2: "authenticateRequest example_env (authorization anonymous_request) True = Inr dev_context"
    by (simp add: authenticateRequest_def)
  have h: "hashInput example_env (arguments anonymous_request) = Inr ''5155510550000000''"
    by (simp add: hashInput_def anonymous_request_def example_env_def example_digest_def
          example_input_def digit_char_def zero_padding_def)
  have w: "audit_write_ok example_env" "generated_audit_id example_env = ''audit_20250819000000._k3j9x0abc''"
    by (simp_all add: example_env_def)
  have n: "name anonymous_request = ''toorpia_run_analysis''"
    by (simp add: anonymous_request_def)
  have c: "handleCall example_env anonymous_request
         \<lparr> session_store = example_store READY, audit_file = [] \<rparr>
       = (McpError (''Error executing tool toorpia_run_analysis: '' @ missing_header_message),
          \<lparr> session_store = example_store READY,
            audit_file =
              [auditEntry example_env dev_context ''toorpia_run_analysis'' ''5155510550000000''
                 False ''audit_20250819000000._k3j9x0abc'' None None None
                 (Some missing_header_message)] \<rparr>)"
    by (simp add: handleCall_def handle_error_def a1 a2 logError_def writeAuditLog_def h w n
          Let_def)
  show ?thesis
    using e a1 a2 c by (simp add: auditEntry_def dev_context_def)
qed

subsection \<open>Session identifiers carry their creation time\<close>

lemma digit_char_in_digits: "k < 10 \<Longrightarrow> digit_char k \<in> decimal_digits"
  unfolding digit_char_def decimal_digits_def by (rule nth_mem) simp

lemma string_of_nat_digits: "set (string_of_nat n) \<subseteq> decimal_digits"
proof (induction n rule: string_of_nat.induct)
  case (1 n)
  show ?case
  proof (cases "n < 10")
    case True
    then have "string_of_nat n = [digit_char n]"
      by (subst string_of_nat.simps) simp
    with True show ?thesis
      by (simp add: digit_char_in_digits)
  next
    case False
    then have "string_of_nat n = string_of_nat (n div 10) @ [digit_char (n mod 10)]"
      by (subst string_of_nat.simps) simp
    moreover have "set (string_of_nat (n div 10)) \<subseteq> decimal_digits"
      using False by (rule "1.IH")
    ultimately show ?thesis
      by (simp add: digit_char_in_digits)
  qed
qed

lemma string_of_nat_not_Nil: "string_of_nat n \<noteq> []"
  by (subst string_of_nat.simps) simp

lemma digit_properties:
  assumes "c \<in> decimal_digits"
  shows "\<not> is_white_space c" and "c \<noteq> CHR ''-''" and "c \<noteq> CHR ''+''"
    and "c \<noteq> CHR ''x''" and "c \<noteq> CHR ''X''" and "c \<noteq> CHR ''_''"
    and "digit_value 10 c \<noteq> None"
  using assms by (auto simp: decimal_digits_def is_white_space_def digit_value_def)

lemma digit_value_digit_char: "k < 10 \<Longrightarrow> digit_value 10 (digit_char k) = Some k"
proof -
  assume "k < 10"
  then have "k \<in> {0, 1, 2, 3, 4, 5, 6, 7, 8, 9}" by auto
  then show ?thesis
    by (auto simp: digit_char_def digit_value_def)
qed

lemma digits_number_string_of_nat: "digits_number 10 (string_of_nat n) = n"
proof (induction n rule: string_of_nat.induct)
  case (1 n)
  show ?case
  proof (cases "n < 10")
    case True
    then show ?thesis
      by (subst string_of_nat.simps) (simp add: digits_number_def digit_value_digit_char)
  next
    case False
    with "1.IH" have "digits_number 10 (string_of_nat (n div 10)) = n div 10" by simp
    with False show ?thesis
      by (subst string_of_nat.simps) (simp add: digits_number_def digit_value_digit_char)
  qed
qed

lemma parseInt_string_of_nat: "parseInt (string_of_nat n) = Some (int n)"
proof -
  let ?s = "string_of_nat n"
  obtain c r where s: "?s = c # r"
    using string_of_nat_not_Nil [of n] by (cases ?s) auto
  have d: "\<And>x. x \<in> set ?s \<Longrightarrow> x \<in> decimal_digits"
    using string_of_nat_digits by blast
  have c: "c \<in> decimal_digits"
    using d [of c] s by simp
  have w: "dropWhile is_white_space ?s = ?s"
    using digit_properties(1) [OF c] s by simp
  have "set (take 2 ?s) \<subseteq> set ?s" by (rule set_take_subset)
  then have nx: "take 2 ?s \<noteq> ''0x''" "take 2 ?s \<noteq> ''0X''"
    using d digit_properties(4,5) by fastforce+
  have t: "takeWhile (\<lambda>c. digit_value 10 c \<noteq> None) ?s = ?s"
    using d digit_properties(7) by (simp add: takeWhile_eq_all_conv)
  have sg: "c \<noteq> CHR ''-''" "c \<noteq> CHR ''+''"
    using digit_properties(2,3) [OF c] by simp_all
  have neg: "(case ?s of [] \<Rightarrow> False | c # _ \<Rightarrow> c = CHR ''-'') = False"
    using s sg by simp
  have unsigned: "(case ?s of [] \<Rightarrow> [] | c # r \<Rightarrow> if c = CHR ''-'' \<or> c = CHR ''+'' then r else ?s) = ?s"
    using s sg by simp
  have hex: "(take 2 ?s = ''0x'' \<or> take 2 ?s = ''0X'') = False"
    using nx by simp
  have "parseInt ?s = Some (int (digits_number 10 ?s))"
    by (simp only: parseInt_def Let_def w neg unsigned hex if_False t)
       (simp add: string_of_nat_not_Nil)
  then show ?thesis by (simp add: digits_number_string_of_nat)
qed

lemma split_session_id:
  "split_on CHR ''_'' (make_session_id now rnd)
     = ''sess'' # string_of_nat now # split_on CHR ''_'' rnd"
proof -
  have "CHR ''_'' \<notin> set (string_of_nat now)"
    using string_of_nat_digits [of now] digit_properties(6) by blast
  then have "split_on CHR ''_'' (string_of_nat now @ CHR ''_'' # rnd)
               = string_of_nat now # split_on CHR ''_'' rnd"
    by (rule split_on_append)
  moreover have "split_on CHR ''_'' (''sess'' @ CHR ''_'' # (string_of_nat now @ CHR ''_'' # rnd))
               = ''sess'' # split_on CHR ''_'' (string_of_nat now @ CHR ''_'' # rnd)"
    by (rule split_on_append) simp
  ultimately show ?thesis by (simp add: make_session_id_def)
qed

text \<open>
  The sweep reads the creation time of a generated identifier back exactly: such a
  session counts as expired when, and only when, it is older than the window.
\<close>

lemma session_expired_generated:
  "session_expired maxAgeMs now (make_session_id created rnd) \<longleftrightarrow> int now - int created > maxAgeMs"
  by (simp add: session_expired_def split_session_id parseInt_string_of_nat Let_def)

lemma make_session_id_not_Nil: "make_session_id now rnd \<noteq> []"
  by (simp add: make_session_id_def)

subsection \<open>The stored hash\<close>

lemma decimal_digits_hex: "decimal_digits \<subseteq> hex_digits"
  by (simp add: decimal_digits_def hex_digits_def)

lemma not_part_of_shorter:
  assumes "length h = 16" and "set h \<subseteq> H"
    and "length p > 16 \<or> \<not> set p \<subseteq> H"
  shows "\<not> (\<exists>ps ss. h = ps @ p @ ss)"
proof
  assume "\<exists>ps ss. h = ps @ p @ ss"
  then obtain ps ss where h: "h = ps @ p @ ss" by blast
  then have "length p \<le> length h" and "set p \<subseteq> set h" by auto
  with assms show False by auto
qed

text \<open>
  Claim C10. Let the digest be what SHA-256 in hexadecimal is: 64 characters, each a
  hexadecimal digit. For a payload \<open>v\<close>, the entry \<^verbatim>\<open>writeAuditLog\<close> appends has as its
  \<^verbatim>\<open>input_hash\<close> the first 16 characters of the digest of the payload's JSON
  serialisation: 16 hexadecimal digits, 64 bits. The hash is a function of the
  payload and of the two library functions alone, so equal payloads have equal
  hashes whatever else differs between two calls. The payload is not stored: a
  serialisation that is longer than 16 characters, or that has a character that is
  no hexadecimal digit (the brace of an object, the quote of a string), is no part
  of the \<^verbatim>\<open>input_hash\<close>, and the entry depends on the payload through the hash only,
  so two payloads with the same hash leave the same audit file.
\<close>

theorem audit_input_hash:
  assumes "\<And>x. length (sha256_hex env x) = 64"
    and "\<And>x. set (sha256_hex env x) \<subseteq> hex_digits"
  shows "writeAuditLog env auth toolName (Some v) ok auditId preset sessionId outputUri err file =
           Inr (if audit_write_ok env
                then file @ [auditEntry env auth toolName
                               (take 16 (sha256_hex env (json_stringify env v)))
                               ok auditId preset sessionId outputUri err]
                else file)
       \<and> input_hash (auditEntry env auth toolName (take 16 (sha256_hex env (json_stringify env v)))
                       ok auditId preset sessionId outputUri err)
           = take 16 (sha256_hex env (json_stringify env v))
       \<and> length (take 16 (sha256_hex env (json_stringify env v))) = 16
       \<and> set (take 16 (sha256_hex env (json_stringify env v))) \<subseteq> hex_digits
       \<and> (length (json_stringify env v) > 16 \<or> \<not> set (json_stringify env v) \<subseteq> hex_digits \<longrightarrow>
             \<not> (\<exists>ps ss. take 16 (sha256_hex env (json_stringify env v))
                          = ps @ json_stringify env v @ ss))
       \<and> (\<forall>env'. sha256_hex env' = sha256_hex env \<and> json_stringify env' = json_stringify env \<longrightarrow>
             hashInput env' (Some v) = hashInput env (Some v))
       \<and> (\<forall>v'. hashInput env (Some v') = hashInput env (Some v) \<longrightarrow>
             writeAuditLog env auth toolName (Some v') ok auditId preset sessionId outputUri err file =
             writeAuditLog env auth toolName (Some v) ok auditId preset sessionId outputUri err file)"
proof -
  let ?h = "take 16 (sha256_hex env (json_stringify env v))"
  have w: "writeAuditLog env auth toolName (Some v) ok auditId preset sessionId outputUri err file =
           Inr (if audit_write_ok env
                then file @ [auditEntry env auth toolName ?h ok auditId preset sessionId outputUri err]
                else file)"
    by (simp add: writeAuditLog_def hashInput_Some Let_def)
  have i: "input_hash (auditEntry env auth toolName ?h ok auditId preset sessionId outputUri err) = ?h"
    by (simp add: auditEntry_def)
  have l: "length ?h = 16"
    using assms(1) [of "json_stringify env v"] by simp
  have "set ?h \<subseteq> set (sha256_hex env (json_stringify env v))"
    by (rule set_take_subset)
  with assms(2) have x: "set ?h \<subseteq> hex_digits" by blast
  have n: "\<not> (\<exists>ps ss. ?h = ps @ json_stringify env v @ ss)"
    if "length (json_stringify env v) > 16 \<or> \<not> set (json_stringify env v) \<subseteq> hex_digits"
    using l x that by (rule not_part_of_shorter)
  have d: "hashInput env' (Some v) = hashInput env (Some v)"
    if "sha256_hex env' = sha256_hex env \<and> json_stringify env' = json_stringify env" for env'
    using that by (simp add: hashInput_Some)
  have c: "writeAuditLog env auth toolName (Some v') ok auditId preset sessionId outputUri err file =
           writeAuditLog env auth toolName (Some v) ok auditId preset sessionId outputUri err file"
    if "hashInput env (Some v') = hashInput env (Some v)" for v'
    using that by (simp add: writeAuditLog_def)
  from w i l x n d c show ?thesis by blast
qed

theorem audit_input_hash_witness:
  "(\<forall>x. length (sha256_hex example_env x) = 64)
   \<and> (\<forall>x. set (sha256_hex example_env x) \<subseteq> hex_digits)
   \<and> writeAuditLog example_env alice ''toorpia_run_analysis'' (Some example_input) True
       ''audit_1'' None None None None [] =
       Inr [\<lparr> timestamp = ''2025-08-19T00:00:00.000Z'',
              AuditLog.user = ''alice'', AuditLog.tenant = ''tenantA'',
              AuditLog.scopes = [''mcp:profile'', ''mcp:analyze''],
              AuditLog.tool = ''toorpia_run_analysis'',
              input_hash = ''5155510550000000'',
              AuditLog.preset_id = None, AuditLog.session_id = None, output_uri = None,
              AuditLog.audit_id = ''audit_1'', AuditLog.success = True, AuditLog.error = None \<rparr>]
   \<and> json_stringify example_env example_input = ''session_id''
   \<and> \<not> set ''session_id'' \<subseteq> hex_digits
   \<and> \<not> (\<exists>ps ss. ''5155510550000000'' = ps @ ''session_id'' @ ss)"
proof -
  have "length zero_padding = 64"
    by (simp add: zero_padding_def)
  then have len: "length (sha256_hex example_env x) = 64" for x
    by (simp add: example_env_def example_digest_def)
  have "set zero_padding \<subseteq> hex_digits"
    by (simp add: zero_padding_def hex_digits_def)
  moreover have "set (map (\<lambda>c. digit_char (of_char c mod 10)) x) \<subseteq> hex_digits" for x
    using digit_char_in_digits decimal_digits_hex by (auto simp: image_subset_iff)
  ultimately have "set (map (\<lambda>c. digit_char (of_char c mod 10)) x @ zero_padding) \<subseteq> hex_digits" for x
    by simp
  then have hex: "set (sha256_hex example_env x) \<subseteq> hex_digits" for x
    using set_take_subset [of 64 "map (\<lambda>c. digit_char (of_char c mod 10)) x @ zero_padding"]
    by (simp add: example_env_def example_digest_def) blast
  have ok: "audit_write_ok example_env"
    by (simp add: example_env_def)
  have p: "json_stringify example_env example_input = ''session_id''"
    by (simp add: example_env_def example_input_def)
  have h: "take 16 (sha256_hex example_env (json_stringify example_env example_input))
             = ''5155510550000000''"
    by (simp add: example_env_def example_digest_def example_input_def digit_char_def
          zero_padding_def)
  have s: "\<not> set ''session_id'' \<subseteq> hex_digits"
    by (simp add: hex_digits_def)
  note t = audit_input_hash [of example_env alice "''toorpia_run_analysis''" example_input True
         "''audit_1''" None None None None "[]", OF len hex]
  from t have "writeAuditLog example_env alice ''toorpia_run_analysis'' (Some example_input) True
          ''audit_1'' None None None None [] =
        Inr [auditEntry example_env alice ''toorpia_run_analysis'' ''5155510550000000''
               True ''audit_1'' None None None None]"
    using ok h by simp
  then have w: "writeAuditLog example_env alice ''toorpia_run_analysis'' (Some example_input) True
       ''audit_1'' None None None None [] =
       Inr [\<lparr> timestamp = ''2025-08-19T00:00:00.000Z'',
              AuditLog.user = ''alice'', AuditLog.tenant = ''tenantA'',
              AuditLog.scopes = [''mcp:profile'', ''mcp:analyze''],
              AuditLog.tool = ''toorpia_run_analysis'',
              input_hash = ''5155510550000000'',
              AuditLog.preset_id = None, AuditLog.session_id = None, output_uri = None,
              AuditLog.audit_id = ''audit_1'', AuditLog.success = True, AuditLog.error = None \<rparr>]"
    by (simp add: auditEntry_def example_env_def alice_def)
  from t have n: "\<not> (\<exists>ps ss. ''5155510550000000'' = ps @ ''session_id'' @ ss)"
    using p h s by metis
  from len hex w p s n show ?thesis by blast
qed

subsection \<open>Store operations\<close>

lemma getSession_createSession:
  "getSession (snd (createSession dataset presets own now rnd st)) k =
     (if k = make_session_id now rnd
      then Some \<lparr> datasetId = dataset, state = SUGGESTED, suggestedPresetIds = presets,
                  processed = None, owner = own \<rparr>
      else getSession st k)"
  by (simp add: createSession_def getSession_def Let_def update_conv')

lemma index_createSession:
  "map_of (sessionsByDataset (snd (createSession dataset presets own now rnd st))) d =
     (if d = dataset then Some (make_session_id now rnd) else map_of (sessionsByDataset st) d)"
  by (simp add: createSession_def Let_def update_conv')

lemma fst_createSession: "fst (createSession dataset presets own now rnd st) = make_session_id now rnd"
  by (simp add: createSession_def Let_def)

lemma getSession_updateSession:
  "getSession (snd (updateSession sessionId x proc st)) k =
     (case getSession st sessionId of
        None \<Rightarrow> getSession st k
      | Some s \<Rightarrow>
          if k = sessionId
          then Some (case proc of None \<Rightarrow> s \<lparr> state := x \<rparr>
                     | Some p \<Rightarrow> s \<lparr> state := x, processed := Some p \<rparr>)
          else getSession st k)"
  by (simp add: updateSession_def getSession_def Let_def update_conv' split: option.splits)

lemma index_updateSession:
  "sessionsByDataset (snd (updateSession sessionId x proc st)) = sessionsByDataset st"
  by (simp add: updateSession_def Let_def split: option.splits)

lemma getSession_remove_session:
  "getSession (remove_session k st) k' = (if k' = k then None else getSession st k')"
  by (auto simp: remove_session_def getSession_def delete_conv' split: option.splits)

lemma index_remove_session:
  "map_of (sessionsByDataset (remove_session k st)) d =
     (case getSession st k of
        None \<Rightarrow> map_of (sessionsByDataset st) d
      | Some s \<Rightarrow> if d = datasetId s then None else map_of (sessionsByDataset st) d)"
  by (auto simp: remove_session_def getSession_def delete_conv' split: option.splits)

lemma getSession_fold_remove:
  "getSession (fold remove_session ks st) k' = (if k' \<in> set ks then None else getSession st k')"
  by (induction ks arbitrary: st) (auto simp: getSession_remove_session)

lemma index_fold_remove:
  "map_of (sessionsByDataset (fold remove_session ks st)) d =
     (if \<exists>k \<in> set ks. \<exists>s. getSession st k = Some s \<and> datasetId s = d then None
      else map_of (sessionsByDataset st) d)"
proof (induction ks arbitrary: st)
  case Nil
  then show ?case by simp
next
  case (Cons k ks)
  have "(\<exists>k' \<in> set ks. \<exists>s. getSession (remove_session k st) k' = Some s \<and> datasetId s = d)
        \<longleftrightarrow> (\<exists>k' \<in> set ks. k' \<noteq> k \<and> (\<exists>s. getSession st k' = Some s \<and> datasetId s = d))"
    by (auto simp: getSession_remove_session)
  then show ?case
    using Cons.IH [of "remove_session k st"]
    by (auto simp: index_remove_session split: option.splits)
qed

lemma expired_keys:
  "k \<in> set (map fst (filter (\<lambda>(sessionId, session). session_expired m now sessionId) (sessions st)))
   \<longleftrightarrow> k \<in> fst ` set (sessions st) \<and> session_expired m now k"
  by force

text \<open>
  The sweep on the session map: exactly the expired identifiers go.
\<close>

lemma getSession_cleanupSessions:
  "getSession (cleanupSessions m now st) k =
     (if session_expired m now k then None else getSession st k)"
proof -
  have "getSession st k = None" if "k \<notin> fst ` set (sessions st)"
    using that by (simp add: getSession_def map_of_eq_None_iff)
  then show ?thesis
    unfolding cleanupSessions_def Let_def getSession_fold_remove expired_keys
    by auto
qed

text \<open>
  The sweep on the dataset index: the entry of a dataset goes when some expired
  session of the map belongs to that dataset, whichever session the entry names.
\<close>

lemma index_cleanupSessions:
  "map_of (sessionsByDataset (cleanupSessions m now st)) d =
     (if \<exists>k s. getSession st k = Some s \<and> session_expired m now k \<and> datasetId s = d then None
      else map_of (sessionsByDataset st) d)"
proof -
  have "(\<exists>k \<in> set (map fst (filter (\<lambda>(sessionId, session). session_expired m now sessionId) (sessions st))).
          \<exists>s. getSession st k = Some s \<and> datasetId s = d)
        \<longleftrightarrow> (\<exists>k s. getSession st k = Some s \<and> session_expired m now k \<and> datasetId s = d)"
    unfolding expired_keys
    by (auto simp: getSession_def dest: map_of_SomeD intro: rev_image_eqI)
  then show ?thesis
    unfolding cleanupSessions_def Let_def index_fold_remove by simp
qed

subsection \<open>Supersession\<close>

lemma example_ids:
  "make_session_id 1000 ''abc'' = ''sess_1000_abc''"
  "make_session_id 2000 ''xyz'' = ''sess_2000_xyz''"
  by (simp_all add: make_session_id_def string_of_nat.simps digit_char_def)

text \<open>
  Two generated identifiers are equal exactly when clock reading and random fragment
  are both equal.
\<close>

lemma make_session_id_inject:
  "make_session_id a r = make_session_id b q \<longleftrightarrow> a = b \<and> r = q"
proof
  assume eq: "make_session_id a r = make_session_id b q"
  then have "split_on CHR ''_'' (make_session_id a r) = split_on CHR ''_'' (make_session_id b q)"
    by simp
  then have "string_of_nat a = string_of_nat b"
    by (simp add: split_session_id)
  then have "parseInt (string_of_nat a) = parseInt (string_of_nat b)"
    by simp
  then have "a = b"
    by (simp add: parseInt_string_of_nat)
  with eq show "a = b \<and> r = q"
    by (simp add: make_session_id_def)
next
  assume "a = b \<and> r = q"
  then show "make_session_id a r = make_session_id b q" by simp
qed

text \<open>
  Claim C7, as amended. After two creations for the same dataset, the lookup by
  dataset returns the session of the second creation, and the index names its
  identifier. The identifier of the first creation still maps to a session; a sweep
  no later than 24 hours after the first creation keeps it, and a later sweep
  removes it. The two identifiers are equal exactly when the two creations read the
  same clock value and draw the same random fragment: when they differ, the session
  found under the first identifier is the superseded session itself; when they are
  equal, it is the second session, which has overwritten the first.
\<close>

theorem createSession_supersedes:
  assumes "s1 = fst (createSession dataset presets1 own1 now1 rnd1 st)"
    and "st1 = snd (createSession dataset presets1 own1 now1 rnd1 st)"
    and "s2 = fst (createSession dataset presets2 own2 now2 rnd2 st1)"
    and "st2 = snd (createSession dataset presets2 own2 now2 rnd2 st1)"
  shows "getSessionByDataset st2 dataset =
           Some \<lparr> datasetId = dataset, state = SUGGESTED, suggestedPresetIds = presets2,
                   processed = None, owner = own2 \<rparr>
       \<and> map_of (sessionsByDataset st2) dataset = Some s2
       \<and> getSession st2 s2 = getSessionByDataset st2 dataset
       \<and> getSession st2 s1 \<noteq> None
       \<and> (s1 = s2) = (now1 = now2 \<and> rnd1 = rnd2)
       \<and> (s1 \<noteq> s2 \<longrightarrow>
            getSession st2 s1 =
              Some \<lparr> datasetId = dataset, state = SUGGESTED, suggestedPresetIds = presets1,
                      processed = None, owner = own1 \<rparr>)
       \<and> (s1 = s2 \<longrightarrow>
            getSession st2 s1 =
              Some \<lparr> datasetId = dataset, state = SUGGESTED, suggestedPresetIds = presets2,
                      processed = None, owner = own2 \<rparr>)
       \<and> (\<forall>now. int now - int now1 \<le> default_max_age \<longrightarrow>
              getSession (cleanupSessions default_max_age now st2) s1 = getSession st2 s1)
       \<and> (\<forall>now. int now - int now1 > default_max_age \<longrightarrow>
              getSession (cleanupSessions default_max_age now st2) s1 = None)"
proof -
  have s1: "s1 = make_session_id now1 rnd1" and s2: "s2 = make_session_id now2 rnd2"
    using assms by (simp_all add: fst_createSession)
  have idx: "map_of (sessionsByDataset st2) dataset = Some s2"
    using assms(4) s2 by (simp add: index_createSession)
  have new: "getSession st2 s2 =
           Some \<lparr> datasetId = dataset, state = SUGGESTED, suggestedPresetIds = presets2,
                   processed = None, owner = own2 \<rparr>"
    using assms(4) s2 by (simp add: getSession_createSession)
  have by_dataset: "getSessionByDataset st2 dataset = getSession st2 s2"
    using idx s2 by (simp add: getSessionByDataset_def getSession_def make_session_id_not_Nil)
  have same: "(s1 = s2) = (now1 = now2 \<and> rnd1 = rnd2)"
    unfolding s1 s2 by (rule make_session_id_inject)
  have old: "s1 \<noteq> s2 \<longrightarrow> getSession st2 s1 =
              Some \<lparr> datasetId = dataset, state = SUGGESTED, suggestedPresetIds = presets1,
                      processed = None, owner = own1 \<rparr>"
    using assms(2,4) s1 s2 by (simp add: getSession_createSession)
  have overwritten: "s1 = s2 \<longrightarrow> getSession st2 s1 =
              Some \<lparr> datasetId = dataset, state = SUGGESTED, suggestedPresetIds = presets2,
                      processed = None, owner = own2 \<rparr>"
    using new by simp
  have present: "getSession st2 s1 \<noteq> None"
    using assms(2,4) s1 s2 by (simp add: getSession_createSession)
  have kept: "getSession (cleanupSessions default_max_age now st2) s1 = getSession st2 s1"
    if "int now - int now1 \<le> default_max_age" for now
    using that s1 by (simp add: getSession_cleanupSessions session_expired_generated)
  have swept: "getSession (cleanupSessions default_max_age now st2) s1 = None"
    if "int now - int now1 > default_max_age" for now
    using that s1 by (simp add: getSession_cleanupSessions session_expired_generated)
  from idx new by_dataset same old overwritten present kept swept show ?thesis by simp
qed

theorem createSession_supersedes_witness:
  "getSessionByDataset two_sessions ''d1'' = Some second_session
   \<and> map_of (sessionsByDataset two_sessions) ''d1'' = Some ''sess_2000_xyz''
   \<and> getSession two_sessions ''sess_1000_abc'' = Some first_session
   \<and> getSession (cleanupSessions default_max_age 86401000 two_sessions) ''sess_1000_abc''
       = Some first_session
   \<and> getSession (cleanupSessions default_max_age 86401001 two_sessions) ''sess_1000_abc'' = None"
proof -
  note t = createSession_supersedes [of "''sess_1000_abc''" "''d1''" "[''a'']" example_owner 1000
      "''abc''" empty_store
      "snd (createSession ''d1'' [''a''] example_owner 1000 ''abc'' empty_store)"
      "''sess_2000_xyz''" "[''b'']" example_owner 2000 "''xyz''" two_sessions]
  have a: "''sess_1000_abc'' = fst (createSession ''d1'' [''a''] example_owner 1000 ''abc'' empty_store)"
    by (simp add: fst_createSession example_ids)
  have b: "''sess_2000_xyz'' = fst (createSession ''d1'' [''b''] example_owner 2000 ''xyz''
             (snd (createSession ''d1'' [''a''] example_owner 1000 ''abc'' empty_store)))"
    by (simp add: fst_createSession example_ids)
  have c: "two_sessions = snd (createSession ''d1'' [''b''] example_owner 2000 ''xyz''
             (snd (createSession ''d1'' [''a''] example_owner 1000 ''abc'' empty_store)))"
    by (simp add: two_sessions_def)
  have d: "int 86401000 - int 1000 \<le> default_max_age" "int 86401001 - int 1000 > default_max_age"
    by (simp_all add: default_max_age_def)
  from t [OF a refl b c] d show ?thesis
    by (simp add: first_session_def second_session_def)
qed

text \<open>
  \<^verbatim>\<open>createSession\<close> does not test that the identifier is new. Two creations in the same
  millisecond that draw the same random fragment get the same identifier, and the
  second overwrites the first: the lookup under the first identifier then returns the
  second session, and the first is addressable no more.
\<close>

theorem createSession_supersedes_counterexample:
  "fst (createSession ''d1'' [''a''] example_owner 1000 ''abc'' empty_store) = ''sess_1000_abc''
   \<and> getSession (snd (createSession ''d1'' [''a''] example_owner 1000 ''abc'' empty_store))
         ''sess_1000_abc'' = Some first_session
   \<and> fst (createSession ''d1'' [''b''] example_owner 1000 ''abc''
            (snd (createSession ''d1'' [''a''] example_owner 1000 ''abc'' empty_store)))
       = ''sess_1000_abc''
   \<and> getSession colliding_sessions ''sess_1000_abc'' = Some second_session
   \<and> second_session \<noteq> first_session"
  by (simp add: colliding_sessions_def fst_createSession getSession_createSession example_ids
        first_session_def second_session_def)

subsection \<open>Expiry\<close>

lemma apply_operation_keeps:
  assumes "getSession st (make_session_id created rnd) \<noteq> None"
    and "sweep_within created op"
  shows "getSession (apply_operation op st) (make_session_id created rnd) \<noteq> None"
proof (cases op)
  case (Create dataset presets own now r)
  with assms(1) show ?thesis
    by (simp add: getSession_createSession)
next
  case (Update sessionId x proc)
  with assms(1) show ?thesis
    by (auto simp: getSession_updateSession split: option.splits)
next
  case (Sweep now)
  with assms show ?thesis
    by (simp add: getSession_cleanupSessions session_expired_generated)
qed

text \<open>
  The part of the expiry contract the session map keeps: after any history of
  creations, updates and sweeps in which no sweep runs later than 24 hours after
  \<open>created\<close>, the lookup by identifier still finds a session under the identifier
  generated at \<open>created\<close>; a sweep that runs later removes it.
\<close>

lemma session_kept_until_expiry:
  assumes "list_all (sweep_within created) ops"
    and "getSession st (make_session_id created rnd) \<noteq> None"
  shows "getSession (run_operations ops st) (make_session_id created rnd) \<noteq> None"
  using assms unfolding run_operations_def
proof (induction ops arbitrary: st)
  case Nil
  then show ?case by simp
next
  case (Cons op ops)
  from Cons.prems have "getSession (apply_operation op st) (make_session_id created rnd) \<noteq> None"
    by (intro apply_operation_keeps) simp_all
  with Cons.IH [of "apply_operation op st"] Cons.prems(1) show ?case by simp
qed

lemma session_swept_after_expiry:
  "int now - int created > default_max_age \<Longrightarrow>
   getSession (cleanupSessions default_max_age now st) (make_session_id created rnd) = None"
  by (simp add: getSession_cleanupSessions session_expired_generated)

text \<open>
  Claim C6, on the code. Dataset \<^verbatim>\<open>d1\<close> gets a session at time 1000 and a second one
  at time 2000, which supersedes the first: the index entry of \<^verbatim>\<open>d1\<close> names the second
  session and the lookup by dataset returns it. A sweep runs at 24 hours and one
  millisecond after the first creation, which is inside the window of the second
  session. The sweep removes the first session, and with it the index entry of
  \<^verbatim>\<open>d1\<close>, without testing that the entry names the expired session: afterwards the
  second session is still found by its identifier, and the lookup by dataset finds
  nothing. The session map has the live session and the dataset index does not.
\<close>

theorem sweep_orphans_successor:
  "getSession two_sessions ''sess_1000_abc'' = Some first_session
   \<and> getSession two_sessions ''sess_2000_xyz'' = Some second_session
   \<and> map_of (sessionsByDataset two_sessions) ''d1'' = Some ''sess_2000_xyz''
   \<and> getSessionByDataset two_sessions ''d1'' = Some second_session
   \<and> int 86401001 - int 1000 > default_max_age
   \<and> int 86401001 - int 2000 \<le> default_max_age
   \<and> getSession (cleanupSessions default_max_age 86401001 two_sessions) ''sess_1000_abc'' = None
   \<and> getSession (cleanupSessions default_max_age 86401001 two_sessions) ''sess_2000_xyz''
       = Some second_session
   \<and> map_of (sessionsByDataset (cleanupSessions default_max_age 86401001 two_sessions)) ''d1''
       = None
   \<and> getSessionByDataset (cleanupSessions default_max_age 86401001 two_sessions) ''d1'' = None"
proof -
  have t: "int 86401001 - int 1000 > default_max_age" "int 86401001 - int 2000 \<le> default_max_age"
    by (simp_all add: default_max_age_def)
  have e1: "session_expired default_max_age 86401001 ''sess_1000_abc''"
    and e2: "\<not> session_expired default_max_age 86401001 ''sess_2000_xyz''"
    unfolding example_ids [symmetric] session_expired_generated
    by (simp_all add: default_max_age_def)
  have g1: "getSession two_sessions ''sess_1000_abc'' = Some first_session"
    and g2: "getSession two_sessions ''sess_2000_xyz'' = Some second_session"
    by (simp_all add: two_sessions_def getSession_createSession example_ids
          first_session_def second_session_def)
  have i: "map_of (sessionsByDataset two_sessions) ''d1'' = Some ''sess_2000_xyz''"
    by (simp add: two_sessions_def index_createSession example_ids)
  with g2 have d: "getSessionByDataset two_sessions ''d1'' = Some second_session"
    by (simp add: getSessionByDataset_def getSession_def)
  have a1: "getSession (cleanupSessions default_max_age 86401001 two_sessions) ''sess_1000_abc'' = None"
    using e1 by (simp add: getSession_cleanupSessions)
  have a2: "getSession (cleanupSessions default_max_age 86401001 two_sessions) ''sess_2000_xyz''
     = Some second_session"
    using e2 g2 by (simp add: getSession_cleanupSessions)
  have "datasetId first_session = ''d1''"
    by (simp add: first_session_def)
  with e1 g1 have b: "map_of (sessionsByDataset (cleanupSessions default_max_age 86401001 two_sessions))
       ''d1'' = None"
    by (auto simp: index_cleanupSessions)
  then have c: "getSessionByDataset (cleanupSessions default_max_age 86401001 two_sessions) ''d1'' = None"
    by (simp add: getSessionByDataset_def)
  from t g1 g2 i d a1 a2 b c show ?thesis by simp
qed

subsection \<open>Processed record and state\<close>

lemma set_update_subset: "set (AList.update k v al) \<subseteq> insert (k, v) (set al)"
  by (induction al) auto

lemma set_delete_subset: "set (AList.delete k al) \<subseteq> set al"
  by (induction al) auto

lemma processed_invariant_iff:
  "processed_invariant st \<longleftrightarrow> (\<forall>(k, s) \<in> set (sessions st). session_consistent s)"
  by (simp add: processed_invariant_def list_all_iff)

lemma processed_invariant_update:
  assumes "processed_invariant st" and "session_consistent s"
  shows "processed_invariant (st \<lparr> sessions := AList.update k s (sessions st) \<rparr>)"
  using assms set_update_subset [of k s "sessions st"]
  by (auto simp: processed_invariant_iff)

lemma processed_invariant_lookup:
  "processed_invariant st \<Longrightarrow> getSession st k = Some s \<Longrightarrow> session_consistent s"
  by (auto simp: processed_invariant_iff getSession_def dest: map_of_SomeD)

lemma processed_invariant_index:
  "processed_invariant (st \<lparr> sessionsByDataset := idx \<rparr>) = processed_invariant st"
  by (simp add: processed_invariant_def)

lemma processed_invariant_createSession:
  assumes "processed_invariant st"
  shows "processed_invariant (snd (createSession dataset presets own now rnd st))"
proof -
  let ?s = "\<lparr> datasetId = dataset, state = SUGGESTED, suggestedPresetIds = presets,
              processed = None, owner = own \<rparr>"
  have "session_consistent ?s"
    by (simp add: session_consistent_def)
  with assms have "processed_invariant
      (st \<lparr> sessions := AList.update (make_session_id now rnd) ?s (sessions st) \<rparr>)"
    by (rule processed_invariant_update)
  then show ?thesis
    by (simp add: createSession_def Let_def processed_invariant_def)
qed

text \<open>
  An update keeps the invariant when it leaves the session with a processed record
  (a given one, or the one it had) for the new states \<open>READY\<close> and \<open>ANALYZED\<close>, and
  without one for the others.
\<close>

lemma processed_invariant_updateSession:
  assumes "processed_invariant st"
    and "\<And>s. getSession st sessionId = Some s \<Longrightarrow>
           (proc \<noteq> None \<or> processed s \<noteq> None) = (x = READY \<or> x = ANALYZED)"
  shows "processed_invariant (snd (updateSession sessionId x proc st))"
proof (cases "getSession st sessionId")
  case None
  with assms(1) show ?thesis
    by (simp add: updateSession_def getSession_def)
next
  case (Some s)
  let ?s' = "case proc of None \<Rightarrow> s \<lparr> state := x \<rparr> | Some p \<Rightarrow> s \<lparr> state := x, processed := Some p \<rparr>"
  from assms(2) [OF Some] have "session_consistent ?s'"
    by (auto simp: session_consistent_def split: option.splits)
  with assms(1) have "processed_invariant (st \<lparr> sessions := AList.update sessionId ?s' (sessions st) \<rparr>)"
    by (rule processed_invariant_update)
  moreover have "snd (updateSession sessionId x proc st)
                   = st \<lparr> sessions := AList.update sessionId ?s' (sessions st) \<rparr>"
    using Some by (simp add: updateSession_def getSession_def Let_def split: option.splits)
  ultimately show ?thesis by simp
qed

lemma processed_invariant_remove_session:
  "processed_invariant st \<Longrightarrow> processed_invariant (remove_session k st)"
  using set_delete_subset [of k "sessions st"]
  by (auto simp: remove_session_def processed_invariant_iff split: option.splits)

lemma processed_invariant_cleanupSessions:
  "processed_invariant st \<Longrightarrow> processed_invariant (cleanupSessions m now st)"
proof -
  have "processed_invariant st \<Longrightarrow> processed_invariant (fold remove_session ks st)" for ks
    by (induction ks arbitrary: st) (simp_all add: processed_invariant_remove_session)
  then show "processed_invariant st \<Longrightarrow> processed_invariant (cleanupSessions m now st)"
    by (simp add: cleanupSessions_def Let_def)
qed

lemma processed_invariant_suggestPreprocess:
  "processed_invariant st \<Longrightarrow> processed_invariant (snd (suggestPreprocess env a auth auditId st))"
  using processed_invariant_createSession
  by (auto simp: suggestPreprocess_def Let_def split: option.splits prod.splits)
     (metis snd_conv)

lemma processed_invariant_confirmPreprocessed:
  assumes "processed_invariant st"
  shows "processed_invariant (snd (confirmPreprocessed env a auth auditId st))"
proof -
  have "processed_invariant (snd (updateSession k READY (Some p) st))" for k p
    using assms by (rule processed_invariant_updateSession) simp
  then show ?thesis
    using assms
    by (auto simp: confirmPreprocessed_def Let_def split: option.splits prod.splits)
       (metis snd_conv)+
qed

lemma checkReadyGate_passed:
  "checkReadyGate st sessionId auth auditId = Inr s \<Longrightarrow>
   getSession st sessionId = Some s \<and> state s = READY"
  by (auto simp: checkReadyGate_def getSession_def Let_def split: option.splits if_splits)

lemma processed_invariant_runAnalysis:
  assumes "processed_invariant st"
  shows "processed_invariant (snd (runAnalysis env a auth auditId st))"
proof (cases "checkReadyGate st (RunArgs.session_id a) auth auditId")
  case (Inl e)
  with assms show ?thesis by (simp add: runAnalysis_def)
next
  case (Inr s)
  then have g: "getSession st (RunArgs.session_id a) = Some s" and r: "state s = READY"
    using checkReadyGate_passed by blast+
  from assms g have "session_consistent s" by (rule processed_invariant_lookup)
  with r obtain p where p: "processed s = Some p"
    by (auto simp: session_consistent_def)
  have "processed_invariant (snd (updateSession (RunArgs.session_id a) ANALYZED None st))"
    using assms by (rule processed_invariant_updateSession) (simp add: g p)
  with Inr p show ?thesis
    by (simp add: runAnalysis_def Let_def split_beta)
qed

lemma processed_invariant_executeTool:
  assumes "processed_invariant st"
  shows "processed_invariant (snd (executeTool env toolName input auth auditId st))"
proof -
  note inv = assms processed_invariant_suggestPreprocess [OF assms]
    processed_invariant_confirmPreprocessed [OF assms]
    processed_invariant_runAnalysis [OF assms]
  consider (plain) "toolName = ''toorpia_upload_data'' \<or> toolName = ''toorpia_get_status''
                     \<or> toolName = ''toorpia_collect_feedback''"
    | (suggest) "toolName = ''toorpia_suggest_preprocess''"
    | (confirm) "toolName = ''toorpia_confirm_preprocessed''"
    | (run) "toolName = ''toorpia_run_analysis''"
    | (unknown) "toolName \<noteq> ''toorpia_upload_data''" "toolName \<noteq> ''toorpia_get_status''"
        "toolName \<noteq> ''toorpia_collect_feedback''" "toolName \<noteq> ''toorpia_suggest_preprocess''"
        "toolName \<noteq> ''toorpia_confirm_preprocessed''" "toolName \<noteq> ''toorpia_run_analysis''"
    by blast
  then show ?thesis
  proof cases
    case plain
    then show ?thesis
      using inv(1) by (auto simp: executeTool_def split: sum.splits)
  next
    case suggest
    then show ?thesis
      using inv(1,2) by (simp add: executeTool_def split: sum.splits)
  next
    case confirm
    then show ?thesis
      using inv(1,3) by (simp add: executeTool_def split: sum.splits)
  next
    case run
    then show ?thesis
      using inv(1,4) by (simp add: executeTool_def split_beta split: sum.splits)
  next
    case unknown
    then show ?thesis
      using inv(1) by (simp add: executeTool_def)
  qed
qed

lemma session_store_handleCall:
  "session_store (snd (handleCall env req s)) = session_store s
   \<or> (\<exists>auth. session_store (snd (handleCall env req s))
         = snd (executeTool env (name req) (arguments req) auth (generated_audit_id env)
                  (session_store s)))"
  by (auto simp: handleCall_def handle_error_def Let_def split: sum.splits prod.splits)
     (metis snd_conv)+

text \<open>
  Claim C5, as amended. The invariant holds in the empty store and is kept by
  \<^verbatim>\<open>createSession\<close>, by the confirmation and by the analysis call whatever their
  outcome, by the sweep, and by every call the handler serves. \<^verbatim>\<open>updateSession\<close>
  keeps it when the new state and the processed record agree: a record (given, or
  already there) for \<open>READY\<close> and \<open>ANALYZED\<close>, none for the other states; these are
  the two ways the server calls it.
\<close>

theorem processed_invariant_preserved:
  assumes "processed_invariant st"
  shows "processed_invariant empty_store
       \<and> processed_invariant (snd (createSession dataset presets own now rnd st))
       \<and> ((\<forall>s. getSession st sessionId = Some s \<longrightarrow>
                (proc \<noteq> None \<or> processed s \<noteq> None) = (x = READY \<or> x = ANALYZED)) \<longrightarrow>
            processed_invariant (snd (updateSession sessionId x proc st)))
       \<and> processed_invariant (snd (confirmPreprocessed env ca auth auditId st))
       \<and> processed_invariant (snd (runAnalysis env ra auth auditId st))
       \<and> processed_invariant (cleanupSessions m swept st)
       \<and> processed_invariant
           (session_store (snd (handleCall env req \<lparr> session_store = st, audit_file = file \<rparr>)))"
proof -
  have e: "processed_invariant empty_store"
    by (simp add: processed_invariant_def empty_store_def)
  have u: "processed_invariant (snd (updateSession sessionId x proc st))"
    if "\<forall>s. getSession st sessionId = Some s \<longrightarrow>
          (proc \<noteq> None \<or> processed s \<noteq> None) = (x = READY \<or> x = ANALYZED)"
    using assms that by (intro processed_invariant_updateSession) blast+
  have h: "processed_invariant
           (session_store (snd (handleCall env req \<lparr> session_store = st, audit_file = file \<rparr>)))"
    using session_store_handleCall [of env req "\<lparr> session_store = st, audit_file = file \<rparr>"]
      assms processed_invariant_executeTool [OF assms]
    by auto
  from e u h assms show ?thesis
    by (simp add: processed_invariant_createSession processed_invariant_confirmPreprocessed
          processed_invariant_runAnalysis processed_invariant_cleanupSessions)
qed

theorem processed_invariant_preserved_witness:
  "processed_invariant (example_store SUGGESTED)
   \<and> processed_invariant
       (snd (createSession ''d2'' [''a''] example_owner 5000 ''klm'' (example_store SUGGESTED)))
   \<and> getSession (example_store SUGGESTED) ''sess_1000_abc'' = Some (example_session SUGGESTED)
   \<and> processed (example_session SUGGESTED) = None
   \<and> processed_invariant ready_store
   \<and> getSession ready_store ''sess_1000_abc''
       = Some (example_session READY \<lparr> processed := Some example_processed \<rparr>)"
proof -
  have i: "processed_invariant (example_store SUGGESTED)"
    by (simp add: processed_invariant_def example_store_def example_session_def
          session_consistent_def)
  have g: "getSession (example_store SUGGESTED) ''sess_1000_abc'' = Some (example_session SUGGESTED)"
    by (simp add: getSession_def example_store_def)
  have p: "processed (example_session SUGGESTED) = None"
    by (simp add: example_session_def)
  have c: "\<forall>s. getSession (example_store SUGGESTED) ''sess_1000_abc'' = Some s \<longrightarrow>
             (Some example_processed \<noteq> None \<or> processed s \<noteq> None) = (READY = READY \<or> READY = ANALYZED)"
    by simp
  have r: "getSession ready_store ''sess_1000_abc''
       = Some (example_session READY \<lparr> processed := Some example_processed \<rparr>)"
    by (simp add: ready_store_def getSession_updateSession g example_session_def)
  from processed_invariant_preserved [OF i, of "''d2''" "[''a'']" example_owner 5000 "''klm''"
         "''sess_1000_abc''" "Some example_processed" READY] c
  have "processed_invariant
          (snd (createSession ''d2'' [''a''] example_owner 5000 ''klm'' (example_store SUGGESTED)))"
    and "processed_invariant ready_store"
    unfolding ready_store_def by blast+
  with i g p r show ?thesis by simp
qed

text \<open>
  \<^verbatim>\<open>updateSession\<close> itself checks nothing: moving a \<open>SUGGESTED\<close> session to \<open>READY\<close>
  without a processed record leaves a \<open>READY\<close> session that has none.
\<close>

theorem processed_invariant_counterexample:
  "processed_invariant (example_store SUGGESTED)
   \<and> fst (updateSession ''sess_1000_abc'' READY None (example_store SUGGESTED))
   \<and> getSession (snd (updateSession ''sess_1000_abc'' READY None (example_store SUGGESTED)))
        ''sess_1000_abc'' = Some (example_session READY)
   \<and> state (example_session READY) = READY
   \<and> processed (example_session READY) = None
   \<and> \<not> processed_invariant
         (snd (updateSession ''sess_1000_abc'' READY None (example_store SUGGESTED)))"
  by (simp add: processed_invariant_def example_store_def example_session_def
        session_consistent_def updateSession_def getSession_def)

subsection \<open>Audit of failed calls\<close>

lemma handle_error_writes:
  assumes "arguments req = Some v" and "audit_write_ok env"
  shows "handle_error env req auditId msg file =
           (McpError (''Error executing tool '' @ name req @ '': '' @ msg),
            file @ [auditEntry env dev_context (name req)
                      (take 16 (sha256_hex env (json_stringify env v)))
                      False auditId None None None (Some msg)])"
  using assms
  by (simp add: handle_error_def authenticateRequest_def logError_def writeAuditLog_def
        hashInput_Some Let_def)

lemma logSuccess_writes:
  assumes "audit_write_ok env"
  shows "logSuccess env auth toolName (Some v) auditId preset sessionId outputUri file =
           Inr (file @ [auditEntry env auth toolName
                          (take 16 (sha256_hex env (json_stringify env v)))
                          True auditId preset sessionId outputUri None])"
  using assms by (simp add: logSuccess_def writeAuditLog_def hashInput_Some Let_def)

lemma checkReadyGate_error_audit_id:
  "checkReadyGate st sessionId auth auditId = Inl e \<Longrightarrow> audit_id e = Some auditId"
  by (auto simp: checkReadyGate_def errorNext_def Let_def split: option.splits if_splits)

lemma confirmPreprocessed_error_audit_id:
  "confirmPreprocessed env a auth auditId st = (Inr (ResultError e), st') \<Longrightarrow>
   audit_id e = Some auditId"
  by (auto simp: confirmPreprocessed_def errorNext_def Let_def split_beta
           split: option.splits if_splits)

lemma suggestPreprocess_no_error_result:
  "suggestPreprocess env a auth auditId st \<noteq> (Inr (ResultError e), st')"
  by (auto simp: suggestPreprocess_def Let_def split_beta split: option.splits if_splits)

lemma runAnalysis_error_audit_id:
  "runAnalysis env a auth auditId st = (ResultError e, st') \<Longrightarrow> audit_id e = Some auditId"
  by (auto simp: runAnalysis_def Let_def split_beta checkReadyGate_error_audit_id
           split: sum.splits option.splits)

text \<open>Every \<^verbatim>\<open>ErrorResponse\<close> a tool returns carries the audit id of the call.\<close>

lemma executeTool_error_audit_id:
  assumes "executeTool env toolName input auth auditId st = (Inr (ResultError e), st')"
  shows "audit_id e = Some auditId"
proof -
  consider (plain) "toolName = ''toorpia_upload_data'' \<or> toolName = ''toorpia_get_status''
                     \<or> toolName = ''toorpia_collect_feedback''"
    | (suggest) "toolName = ''toorpia_suggest_preprocess''"
    | (confirm) "toolName = ''toorpia_confirm_preprocessed''"
    | (run) "toolName = ''toorpia_run_analysis''"
    | (unknown) "toolName \<noteq> ''toorpia_upload_data''" "toolName \<noteq> ''toorpia_get_status''"
        "toolName \<noteq> ''toorpia_collect_feedback''" "toolName \<noteq> ''toorpia_suggest_preprocess''"
        "toolName \<noteq> ''toorpia_confirm_preprocessed''" "toolName \<noteq> ''toorpia_run_analysis''"
    by blast
  then show ?thesis
  proof cases
    case plain
    with assms show ?thesis
      by (auto simp: executeTool_def split: sum.splits)
  next
    case suggest
    with assms show ?thesis
      by (simp add: executeTool_def suggestPreprocess_no_error_result split: sum.splits if_splits)
  next
    case confirm
    with assms show ?thesis
      by (simp add: executeTool_def split: sum.splits if_splits)
         (erule confirmPreprocessed_error_audit_id)
  next
    case run
    with assms show ?thesis
      by (auto simp: executeTool_def split: sum.splits if_splits prod.splits
               dest: runAnalysis_error_audit_id)
  next
    case unknown
    with assms show ?thesis
      by (simp add: executeTool_def)
  qed
qed

text \<open>A missing scope makes the tool throw before anything else happens.\<close>

lemma executeTool_insufficient_scope:
  "\<not> checkScope auth ''mcp:profile'' \<Longrightarrow>
   toolName = ''toorpia_suggest_preprocess'' \<or> toolName = ''toorpia_confirm_preprocessed'' \<Longrightarrow>
   executeTool env toolName input auth auditId st =
     (Inl ''Insufficient permissions: mcp:profile scope required'', st)"
  "\<not> checkScope auth ''mcp:analyze'' \<Longrightarrow>
   executeTool env ''toorpia_run_analysis'' input auth auditId st =
     (Inl ''Insufficient permissions: mcp:analyze scope required'', st)"
  by (auto simp: executeTool_def)

text \<open>A failed gate is returned, not thrown.\<close>

lemma executeTool_gate_failure:
  assumes "checkScope auth ''mcp:analyze''" and "zod_run env input = Inr a"
    and "checkReadyGate st (RunArgs.session_id a) auth auditId = Inl e"
  shows "executeTool env ''toorpia_run_analysis'' input auth auditId st = (Inr (ResultError e), st)"
  using assms by (simp add: executeTool_def runAnalysis_def)

text \<open>
  What the handler does with a thrown error: a call with defined arguments whose
  append succeeds gets one entry with \<^verbatim>\<open>success = false\<close>, the error message and the
  audit id generated for the call, and the caller gets a protocol error. A failed
  authentication and a missing scope both end this way.
\<close>

lemma thrown_error_audited:
  assumes "arguments req = Some v" and "audit_write_ok env"
    and "authenticateRequest env (authorization req) (NODE_ENV (penv env) = Some ''development'') = Inl msg
        \<or> (\<exists>auth st'. authenticateRequest env (authorization req)
                (NODE_ENV (penv env) = Some ''development'') = Inr auth
              \<and> executeTool env (name req) (arguments req) auth (generated_audit_id env)
                  (session_store s) = (Inl msg, st'))"
  shows "fst (handleCall env req s) = McpError (''Error executing tool '' @ name req @ '': '' @ msg)
       \<and> (\<exists>entry. audit_file (snd (handleCall env req s)) = audit_file s @ [entry]
             \<and> AuditLog.success entry = False
             \<and> AuditLog.error entry = Some msg
             \<and> AuditLog.audit_id entry = generated_audit_id env)"
proof -
  let ?aid = "generated_audit_id env"
  let ?h = "take 16 (sha256_hex env (json_stringify env v))"
  let ?entry = "auditEntry env dev_context (name req) ?h False ?aid None None None (Some msg)"
  note he = handle_error_writes [OF assms(1,2), of ?aid msg "audit_file s"]
  have "fst (handleCall env req s) = McpError (''Error executing tool '' @ name req @ '': '' @ msg)"
    and "audit_file (snd (handleCall env req s)) = audit_file s @ [?entry]"
    using assms(3) he by (auto simp: handleCall_def Let_def)
  moreover have "AuditLog.success ?entry = False" "AuditLog.error ?entry = Some msg"
    "AuditLog.audit_id ?entry = ?aid"
    by (simp_all add: auditEntry_def)
  ultimately show ?thesis by blast
qed

text \<open>
  What the handler does with a returned \<^verbatim>\<open>ErrorResponse\<close>: it takes the return for a
  success. The one entry of the call carries the audit id of the response, and its
  \<^verbatim>\<open>success\<close> field is \<^verbatim>\<open>true\<close>, with no error message.
\<close>

lemma returned_error_audited:
  assumes "arguments req = Some v" and "audit_write_ok env"
    and a: "authenticateRequest env (authorization req) (NODE_ENV (penv env) = Some ''development'') = Inr auth"
    and x: "executeTool env (name req) (arguments req) auth (generated_audit_id env) (session_store s)
              = (Inr (ResultError e), st')"
  shows "fst (handleCall env req s) = ToolContent (ResultError e)
       \<and> audit_id e = Some (generated_audit_id env)
       \<and> audit_file (snd (handleCall env req s))
           = audit_file s @ [auditEntry env auth (name req)
                               (take 16 (sha256_hex env (json_stringify env v)))
                               True (generated_audit_id env) None None None None]"
proof -
  let ?aid = "generated_audit_id env"
  let ?h = "take 16 (sha256_hex env (json_stringify env v))"
  let ?entry = "auditEntry env auth (name req) ?h True ?aid None None None None"
  have "logSuccess env auth (name req) (arguments req) ?aid
          (result_preset_id (ResultError e)) (result_session_id (ResultError e)) None (audit_file s)
        = Inr (audit_file s @ [?entry])"
    using logSuccess_writes [OF assms(2)] assms(1) by simp
  with a x have "fst (handleCall env req s) = ToolContent (ResultError e)"
    and "audit_file (snd (handleCall env req s)) = audit_file s @ [?entry]"
    by (simp_all add: handleCall_def Let_def)
  moreover have "audit_id e = Some ?aid"
    using x by (rule executeTool_error_audit_id)
  ultimately show ?thesis by blast
qed

text \<open>
  Claim C2, on the code. The session of dataset \<^verbatim>\<open>d1\<close> is \<open>READY\<close> and belongs to alice
  of tenant A. Bob of tenant B, with a valid token and the scope \<^verbatim>\<open>mcp:analyze\<close>,
  calls the analysis tool on it. The gate denies access and the caller receives the
  \<^verbatim>\<open>ACCESS_DENIED\<close> response with the call's audit id; the one audit entry of the
  call has that audit id, but its \<^verbatim>\<open>success\<close> field is \<^verbatim>\<open>true\<close> and it has no error
  message: the authorization failure is recorded as a successful call.
\<close>

theorem access_denied_audited_as_success:
  "authenticateRequest bob_env (authorization bob_request)
      (NODE_ENV (penv bob_env) = Some ''development'') = Inr bob
   \<and> checkScope bob ''mcp:analyze''
   \<and> getSession ready_store ''sess_1000_abc''
       = Some (example_session READY \<lparr> processed := Some example_processed \<rparr>)
   \<and> owner (example_session READY \<lparr> processed := Some example_processed \<rparr>)
       = \<lparr> user = ''alice'', tenant = ''tenantA'' \<rparr>
   \<and> fst (handleCall bob_env bob_request ready_state)
       = ToolContent (ResultError
           \<lparr> ErrorResponse.error = ''ACCESS_DENIED'', message = MsgGateAccessDenied,
             nextActions = [], audit_id = Some ''audit_20250819000000._k3j9x0abc'' \<rparr>)
   \<and> session_store (snd (handleCall bob_env bob_request ready_state)) = ready_store
   \<and> audit_file (snd (handleCall bob_env bob_request ready_state))
       = [\<lparr> timestamp = ''2025-08-19T00:00:00.000Z'',
            AuditLog.user = ''bob'', AuditLog.tenant = ''tenantB'',
            AuditLog.scopes = [''mcp:profile'', ''mcp:analyze''],
            AuditLog.tool = ''toorpia_run_analysis'',
            input_hash = ''5155510550000000'',
            AuditLog.preset_id = None, AuditLog.session_id = None, output_uri = None,
            AuditLog.audit_id = ''audit_20250819000000._k3j9x0abc'',
            AuditLog.success = True, AuditLog.error = None \<rparr>]"
proof -
  have auth: "authenticateRequest bob_env (authorization bob_request)
      (NODE_ENV (penv bob_env) = Some ''development'') = Inr bob"
    by (simp add: authenticateRequest_def bob_request_def extractBearerToken_def verifyJWT_def
          bob_env_def example_env_def bob_payload_def parseScopes_def bob_def)
  have scope: "checkScope bob ''mcp:analyze''"
    by (simp add: checkScope_def bob_def)
  have g: "getSession ready_store ''sess_1000_abc''
       = Some (example_session READY \<lparr> processed := Some example_processed \<rparr>)"
    by (simp add: ready_store_def updateSession_def getSession_def example_store_def
          example_session_def)
  have o: "owner (example_session READY \<lparr> processed := Some example_processed \<rparr>)
       = \<lparr> user = ''alice'', tenant = ''tenantA'' \<rparr>"
    by (simp add: example_session_def example_owner_def)
  have gate: "checkReadyGate ready_store ''sess_1000_abc'' bob ''audit_20250819000000._k3j9x0abc''
       = Inl \<lparr> ErrorResponse.error = ''ACCESS_DENIED'', message = MsgGateAccessDenied,
               nextActions = [], audit_id = Some ''audit_20250819000000._k3j9x0abc'' \<rparr>"
    using g o by (simp add: checkReadyGate_def getSession_def errorNext_def bob_def)
  have e: "generated_audit_id bob_env = ''audit_20250819000000._k3j9x0abc''"
    "audit_write_ok bob_env" "iso_now bob_env = ''2025-08-19T00:00:00.000Z''"
    "zod_run bob_env (arguments bob_request) = Inr example_run_args"
    by (simp_all add: bob_env_def example_env_def)
  have r: "name bob_request = ''toorpia_run_analysis''" "arguments bob_request = Some example_input"
    "RunArgs.session_id example_run_args = ''sess_1000_abc''"
    "session_store ready_state = ready_store" "audit_file ready_state = []"
    by (simp_all add: bob_request_def example_run_args_def ready_state_def)
  have tool: "executeTool bob_env (name bob_request) (arguments bob_request) bob
                (generated_audit_id bob_env) (session_store ready_state)
              = (Inr (ResultError
                   \<lparr> ErrorResponse.error = ''ACCESS_DENIED'', message = MsgGateAccessDenied,
                     nextActions = [], audit_id = Some ''audit_20250819000000._k3j9x0abc'' \<rparr>),
                 ready_store)"
    using executeTool_gate_failure [OF scope e(4), of ready_store "generated_audit_id bob_env"]
      gate by (simp add: e r)
  have h: "take 16 (sha256_hex bob_env (json_stringify bob_env example_input)) = ''5155510550000000''"
    by (simp add: bob_env_def example_env_def example_digest_def example_input_def digit_char_def
          zero_padding_def)
  note t = returned_error_audited [OF r(2) e(2) auth tool]
  from t have resp: "fst (handleCall bob_env bob_request ready_state)
       = ToolContent (ResultError
           \<lparr> ErrorResponse.error = ''ACCESS_DENIED'', message = MsgGateAccessDenied,
             nextActions = [], audit_id = Some ''audit_20250819000000._k3j9x0abc'' \<rparr>)"
    by simp
  from t have entries: "audit_file (snd (handleCall bob_env bob_request ready_state))
       = [auditEntry bob_env bob ''toorpia_run_analysis'' ''5155510550000000'' True
            ''audit_20250819000000._k3j9x0abc'' None None None None]"
    by (simp add: r e h)
  have st: "session_store (snd (handleCall bob_env bob_request ready_state)) = ready_store"
    using auth tool r(2) e(2)
    by (simp add: handleCall_def Let_def logSuccess_def writeAuditLog_def hashInput_Some)
  from auth scope g o resp st entries show ?thesis
    by (simp add: auditEntry_def e bob_def)
qed

text \<open>
  The other failures of the gate end the same way: the owner of a \<open>SUGGESTED\<close> session
  calls the analysis tool with a valid token, the answer is the
  \<^verbatim>\<open>PREPROCESS_REQUIRED\<close> response, and the one audit entry of the call has
  \<^verbatim>\<open>success = true\<close>.
\<close>

lemma preprocess_required_audited_as_success:
  "fst (handleCall example_env alice_request suggested_state)
     = ToolContent (ResultError
         (errorNext ''PREPROCESS_REQUIRED'' MsgGatePreprocessRequired
            [\<lparr> tool = ''toorpia_confirm_preprocessed'',
               args = confirm_template (example_session SUGGESTED) \<rparr>]
            (Some ''audit_20250819000000._k3j9x0abc'')))
   \<and> length (audit_file (snd (handleCall example_env alice_request suggested_state))) = 1
   \<and> AuditLog.success (hd (audit_file (snd (handleCall example_env alice_request suggested_state))))
       = True
   \<and> AuditLog.audit_id (hd (audit_file (snd (handleCall example_env alice_request suggested_state))))
       = ''audit_20250819000000._k3j9x0abc''"
proof -
  have auth: "authenticateRequest example_env (authorization alice_request)
                (NODE_ENV (penv example_env) = Some ''development'')
              = Inr \<lparr> user = ''alice'', tenant = ''tenantA'',
                      scopes = [''mcp:profile'', ''mcp:analyze''], token = ''token-a'' \<rparr>"
    by (simp add: authenticateRequest_def alice_request_def extractBearerToken_def verifyJWT_def
          example_env_def example_payload_def parseScopes_def)
  have gate: "checkReadyGate (example_store SUGGESTED) ''sess_1000_abc''
                \<lparr> user = ''alice'', tenant = ''tenantA'',
                  scopes = [''mcp:profile'', ''mcp:analyze''], token = ''token-a'' \<rparr>
                ''audit_20250819000000._k3j9x0abc''
              = Inl (errorNext ''PREPROCESS_REQUIRED'' MsgGatePreprocessRequired
                       [\<lparr> tool = ''toorpia_confirm_preprocessed'',
                          args = confirm_template (example_session SUGGESTED) \<rparr>]
                       (Some ''audit_20250819000000._k3j9x0abc''))"
    by (simp add: checkReadyGate_def example_store_def example_session_def example_owner_def)
  have tool: "executeTool example_env (name alice_request) (arguments alice_request)
                \<lparr> user = ''alice'', tenant = ''tenantA'',
                  scopes = [''mcp:profile'', ''mcp:analyze''], token = ''token-a'' \<rparr>
                (generated_audit_id example_env) (session_store suggested_state)
              = (Inr (ResultError
                   (errorNext ''PREPROCESS_REQUIRED'' MsgGatePreprocessRequired
                      [\<lparr> tool = ''toorpia_confirm_preprocessed'',
                         args = confirm_template (example_session SUGGESTED) \<rparr>]
                      (Some ''audit_20250819000000._k3j9x0abc''))),
                 example_store SUGGESTED)"
    using gate
    by (simp add: executeTool_def alice_request_def checkScope_def runAnalysis_def
          suggested_state_def example_env_def example_run_args_def)
  have log: "audit_write_ok example_env" "arguments alice_request = Some example_input"
    by (simp_all add: example_env_def alice_request_def)
  show ?thesis
    using auth tool log
    by (simp add: handleCall_def Let_def logSuccess_def writeAuditLog_def hashInput_Some
          auditEntry_def suggested_state_def)
       (simp add: example_env_def)
qed

end
